theory Spec2Isabelle
  imports Main "HOL-Library.List_Lexorder" "HOL-Library.Multiset"
begin

section \<open>JavaScript strings\<close>

text \<open>
  A JavaScript string is a sequence of UTF-16 code units; \<open>length\<close>, \<open>substring\<close>,
  \<open>split\<close> and \<open>trim\<close> all count code units. A code unit is modelled as a natural
  number, and \<open>str\<close> turns an ASCII literal of the source into its code units.
\<close>

type_synonym jsstring = "nat list"

definition str :: "string \<Rightarrow> jsstring" where
  "str s = map of_char s"

text \<open>
  The characters that \<open>String.prototype.trim\<close> strips and that \<open>\s\<close> matches in a
  regular expression: ECMAScript WhiteSpace and LineTerminator.
\<close>

definition isLineTerminator :: "nat \<Rightarrow> bool" where
  "isLineTerminator c \<longleftrightarrow> c = 10 \<or> c = 13 \<or> c = 8232 \<or> c = 8233"

definition isWhiteSpace :: "nat \<Rightarrow> bool" where
  "isWhiteSpace c \<longleftrightarrow>
     c = 9 \<or> c = 11 \<or> c = 12 \<or> c = 32 \<or> c = 160 \<or> c = 5760 \<or>
     (8192 \<le> c \<and> c \<le> 8202) \<or> c = 8239 \<or> c = 8287 \<or> c = 12288 \<or> c = 65279 \<or>
     isLineTerminator c"

definition isDigit :: "nat \<Rightarrow> bool" where
  "isDigit c \<longleftrightarrow> 48 \<le> c \<and> c \<le> 57"

definition trim :: "jsstring \<Rightarrow> jsstring" where
  "trim s = rev (dropWhile isWhiteSpace (rev (dropWhile isWhiteSpace s)))"

text \<open>\<open>s.split(sep)\<close> for a one-character separator: \<open>"".split(",")\<close> is \<open>[""]\<close>.\<close>

fun split_on :: "nat \<Rightarrow> jsstring \<Rightarrow> jsstring list" where
  "split_on sep [] = [[]]"
| "split_on sep (c # cs) =
     (if c = sep then [] # split_on sep cs
      else (case split_on sep cs of
              [] \<Rightarrow> [[c]]
            | w # ws \<Rightarrow> (c # w) # ws))"

text \<open>
  \<open>s.split(/\s+/)\<close>: the pieces between maximal runs of whitespace. A string that
  starts or ends with whitespace yields an empty first or last piece, and the empty
  string yields \<open>[""]\<close>. The flag says whether the previous character was whitespace;
  the accumulator holds the current piece reversed.
\<close>

fun split_ws_from :: "bool \<Rightarrow> jsstring \<Rightarrow> jsstring \<Rightarrow> jsstring list" where
  "split_ws_from inws cur [] = [rev cur]"
| "split_ws_from inws cur (c # cs) =
     (if isWhiteSpace c
      then (if inws then split_ws_from True [] cs else rev cur # split_ws_from True [] cs)
      else split_ws_from False (c # cur) cs)"

definition split_ws :: "jsstring \<Rightarrow> jsstring list" where
  "split_ws s = split_ws_from False [] s"

definition endsWith :: "jsstring \<Rightarrow> jsstring \<Rightarrow> bool" where
  "endsWith s suffix \<longleftrightarrow>
     length suffix \<le> length s \<and> drop (length s - length suffix) s = suffix"

text \<open>
  \<open>path.basename(p, ext)\<close> of Node, for a name without a path separator (the indexer
  passes directory entries): the extension is removed when the name ends with it.
\<close>

definition basename :: "jsstring \<Rightarrow> jsstring \<Rightarrow> jsstring" where
  "basename p ext = (if endsWith p ext then take (length p - length ext) p else p)"

text \<open>Decimal rendering of a non-negative integer, as a template literal does it.\<close>

fun show_nat :: "nat \<Rightarrow> jsstring" where
  "show_nat n = (if n < 10 then [48 + n] else show_nat (n div 10) @ [48 + n mod 10])"

declare show_nat.simps [simp del]

text \<open>
  \<open>slug.match(/(\d{4}-\d{2}-\d{2})/)\<close>: the leftmost place where four digits, a hyphen,
  two digits, a hyphen and two digits follow each other; \<open>None\<close> is the \<open>null\<close> of a
  failed match.
\<close>

definition date_pattern_here :: "jsstring \<Rightarrow> bool" where
  "date_pattern_here s \<longleftrightarrow>
     10 \<le> length s \<and>
     isDigit (s ! 0) \<and> isDigit (s ! 1) \<and> isDigit (s ! 2) \<and> isDigit (s ! 3) \<and> s ! 4 = 45 \<and>
     isDigit (s ! 5) \<and> isDigit (s ! 6) \<and> s ! 7 = 45 \<and>
     isDigit (s ! 8) \<and> isDigit (s ! 9)"

fun match_date :: "jsstring \<Rightarrow> jsstring option" where
  "match_date [] = None"
| "match_date (c # cs) =
     (if date_pattern_here (c # cs) then Some (take 10 (c # cs)) else match_date cs)"

text \<open>
  \<open>s.replace(/.*\s/, '')\<close>: the leftmost match is removed, once. At a start position
  the greedy \<open>.*\<close> runs over characters that are not line terminators and then gives
  back until a whitespace character follows; \<open>greedy_end\<close> is the index of that
  whitespace character, the last one reachable.
\<close>

definition greedy_end :: "jsstring \<Rightarrow> nat option" where
  "greedy_end s =
     (let line = takeWhile (\<lambda>c. \<not> isLineTerminator c) s;
          cands = filter (\<lambda>j. j < length s \<and> isWhiteSpace (s ! j)) [0 ..< Suc (length line)]
      in if cands = [] then None else Some (last cands))"

fun remove_icon_text :: "jsstring \<Rightarrow> jsstring" where
  "remove_icon_text [] = []"
| "remove_icon_text (c # cs) =
     (case greedy_end (c # cs) of
        Some j \<Rightarrow> drop (Suc j) (c # cs)
      | None \<Rightarrow> c # remove_icon_text cs)"

section \<open>The parsed document\<close>

text \<open>
  Both programs hand the markup to an HTML parser (\<open>JSDOM\<close> offline, \<open>DOMParser\<close> in
  the browser) and query the resulting tree. The parser is not part of the repository
  and is a parameter of the model; its result is a tree of text and element nodes under
  the \<open>html\<close>, \<open>head\<close> and \<open>body\<close> elements that an HTML parser always creates. Tag and
  attribute names are the lower-case names the parser stores.
\<close>

datatype node =
    Text jsstring
  | Element (tagName: jsstring) (attributes: "(jsstring \<times> jsstring) list") (childNodes: "node list")

record document =
  html_attributes :: "(jsstring \<times> jsstring) list"
  head_attributes :: "(jsstring \<times> jsstring) list"
  head_nodes :: "node list"
  body_attributes :: "(jsstring \<times> jsstring) list"
  body_nodes :: "node list"

definition body :: "document \<Rightarrow> node" where
  "body doc = Element (str ''body'') (body_attributes doc) (body_nodes doc)"

definition documentElement :: "document \<Rightarrow> node" where
  "documentElement doc =
     Element (str ''html'') (html_attributes doc)
       [Element (str ''head'') (head_attributes doc) (head_nodes doc), body doc]"

text \<open>\<open>el.getAttribute(name)\<close>; \<open>None\<close> is the \<open>null\<close> of an absent attribute.\<close>

fun getAttribute :: "node \<Rightarrow> jsstring \<Rightarrow> jsstring option" where
  "getAttribute (Element t as cs) name = map_of as name"
| "getAttribute (Text s) name = None"

fun textContent :: "node \<Rightarrow> jsstring" where
  "textContent (Text s) = s"
| "textContent (Element t as cs) = concat (map textContent cs)"

text \<open>
  The selectors the programs use: a tag name, a class, a tag with an attribute of a
  given value, and one descendant combinator (\<open>.post-content p\<close>); a selector list is
  a comma-separated group of them.
\<close>

datatype compound =
    Tag jsstring
  | Class jsstring
  | TagAttr jsstring jsstring jsstring

datatype complex =
    Is compound
  | Inside compound compound

type_synonym selector = "complex list"

definition isAsciiWhitespace :: "nat \<Rightarrow> bool" where
  "isAsciiWhitespace c \<longleftrightarrow> c = 9 \<or> c = 10 \<or> c = 12 \<or> c = 13 \<or> c = 32"

fun tokens_from :: "jsstring \<Rightarrow> jsstring \<Rightarrow> jsstring list" where
  "tokens_from cur [] = (if cur = [] then [] else [rev cur])"
| "tokens_from cur (c # cs) =
     (if isAsciiWhitespace c
      then (if cur = [] then tokens_from [] cs else rev cur # tokens_from [] cs)
      else tokens_from (c # cur) cs)"

definition classList :: "node \<Rightarrow> jsstring list" where
  "classList el =
     (case getAttribute el (str ''class'') of
        None \<Rightarrow> []
      | Some v \<Rightarrow> tokens_from [] v)"

fun matches_compound :: "compound \<Rightarrow> node \<Rightarrow> bool" where
  "matches_compound c (Text s) = False"
| "matches_compound (Tag t) (Element t' as cs) = (t' = t)"
| "matches_compound (Class c) (Element t' as cs) = (c \<in> set (classList (Element t' as cs)))"
| "matches_compound (TagAttr t a v) (Element t' as cs) = (t' = t \<and> map_of as a = Some v)"

fun matches :: "complex \<Rightarrow> node \<Rightarrow> node list \<Rightarrow> bool" where
  "matches (Is c) el ancestors = matches_compound c el"
| "matches (Inside a c) el ancestors =
     (matches_compound c el \<and> list_ex (matches_compound a) ancestors)"

text \<open>Every element below a node, in document order, with its ancestors.\<close>

fun elements :: "node list \<Rightarrow> node \<Rightarrow> (node \<times> node list) list" where
  "elements ancestors (Text s) = []"
| "elements ancestors (Element t as cs) =
     (Element t as cs, ancestors) #
     concat (map (elements (Element t as cs # ancestors)) cs)"

definition querySelectorAll :: "document \<Rightarrow> selector \<Rightarrow> node list" where
  "querySelectorAll doc sel =
     map fst (filter (\<lambda>(el, ancestors). list_ex (\<lambda>c. matches c el ancestors) sel)
                (elements [] (documentElement doc)))"

definition querySelector :: "document \<Rightarrow> selector \<Rightarrow> node option" where
  "querySelector doc sel =
     (case querySelectorAll doc sel of
        [] \<Rightarrow> None
      | el # rest \<Rightarrow> Some el)"

definition meta_name :: "string \<Rightarrow> selector" where
  "meta_name n = [Is (TagAttr (str ''meta'') (str ''name'') (str n))]"

section \<open>The offline indexer: \<open>generate-posts-index.js\<close>\<close>

datatype error = TypeError | FileError

record post =
  post_id :: jsstring
  title :: jsstring
  excerpt :: jsstring
  date :: jsstring
  category :: "jsstring option"
  tags :: "jsstring list"
  author :: "jsstring option"
  readTime :: jsstring
  slug :: jsstring
  wordCount :: nat
  lastModified :: jsstring

text \<open>
  \<open>extractMetadata\<close>, one definition per commented section of the function. A field
  of type \<open>jsstring option\<close> can be \<open>null\<close>: \<open>getAttribute\<close> returns \<open>null\<close> for a
  \<open>meta\<close> element without \<open>content\<close>. Calling \<open>.split\<close> on that \<open>null\<close> throws a
  \<open>TypeError\<close>, which the function does not catch.
\<close>

definition meta_title :: "document \<Rightarrow> jsstring" where
  "meta_title doc =
     (case querySelector doc
             [Is (Tag (str ''h1'')), Is (Class (str ''post-title-main'')), Is (Tag (str ''title''))] of
        Some titleEl \<Rightarrow> trim (textContent titleEl)
      | None \<Rightarrow> str ''Untitled Post'')"

text \<open>The value of \<open>excerpt\<close> before \<open>excerpt || 'No excerpt available.'\<close> is applied.\<close>

definition meta_excerpt :: "document \<Rightarrow> jsstring option" where
  "meta_excerpt doc =
     (case querySelector doc (meta_name ''description'') of
        Some metaDesc \<Rightarrow> getAttribute metaDesc (str ''content'')
      | None \<Rightarrow>
          (case querySelector doc
                  [Inside (Class (str ''post-content'')) (Tag (str ''p'')), Is (Tag (str ''p''))] of
             Some firstP \<Rightarrow>
               (let text = trim (textContent firstP)
                in if length text > 200 then Some (take 200 text @ str ''...'')
                   else Some text)
           | None \<Rightarrow> Some []))"

text \<open>\<open>excerpt || d\<close>: \<open>null\<close> and the empty string are falsy.\<close>

definition or_default :: "jsstring option \<Rightarrow> jsstring \<Rightarrow> jsstring" where
  "or_default v d = (case v of None \<Rightarrow> d | Some s \<Rightarrow> if s = [] then d else s)"

text \<open>\<open>s.split('T')[0]\<close>.\<close>

definition date_part :: "jsstring \<Rightarrow> jsstring" where
  "date_part s = hd (split_on 84 s)"

definition meta_date :: "jsstring \<Rightarrow> document \<Rightarrow> jsstring \<Rightarrow> error + jsstring" where
  "meta_date now doc slug' =
     (let today = date_part now in
      case querySelector doc
             [Is (TagAttr (str ''meta'') (str ''name'') (str ''date'')),
              Is (TagAttr (str ''meta'') (str ''property'') (str ''article:published_time''))] of
        Some metaDate \<Rightarrow>
          (case getAttribute metaDate (str ''content'') of
             None \<Rightarrow> Inl TypeError
           | Some c \<Rightarrow> Inr (date_part c))
      | None \<Rightarrow>
          (case match_date slug' of
             Some dateMatch \<Rightarrow> Inr dateMatch
           | None \<Rightarrow> Inr today))"

definition meta_category :: "document \<Rightarrow> jsstring option" where
  "meta_category doc =
     (case querySelector doc (meta_name ''category'') of
        Some metaCat \<Rightarrow> getAttribute metaCat (str ''content'')
      | None \<Rightarrow>
          (case querySelector doc [Is (Class (str ''post-category''))] of
             Some catEl \<Rightarrow> Some (trim (remove_icon_text (textContent catEl)))
           | None \<Rightarrow> Some (str ''General'')))"

definition meta_tags :: "document \<Rightarrow> error + jsstring list" where
  "meta_tags doc =
     (case querySelector doc (meta_name ''keywords'') of
        Some metaKeywords \<Rightarrow>
          (case getAttribute metaKeywords (str ''content'') of
             None \<Rightarrow> Inl TypeError
           | Some c \<Rightarrow> Inr (filter (\<lambda>tag. length tag > 0) (map trim (split_on 44 c))))
      | None \<Rightarrow>
          (let tagElements = querySelectorAll doc [Is (Class (str ''tag'')), Is (Class (str ''post-tag''))]
           in if length tagElements > 0
              then Inr (map (\<lambda>el. trim (textContent el)) tagElements)
              else Inr [str ''Blog'']))"

definition meta_wordCount :: "document \<Rightarrow> nat" where
  "meta_wordCount doc =
     length (filter (\<lambda>word. length word > 0) (split_ws (textContent (body doc))))"

text \<open>\<open>Math.max(1, Math.ceil(wordCount / 200))\<close>.\<close>

definition meta_readTime :: "nat \<Rightarrow> nat" where
  "meta_readTime wc = max 1 ((wc + 199) div 200)"

definition meta_author :: "document \<Rightarrow> jsstring option" where
  "meta_author doc =
     (case querySelector doc (meta_name ''author'') of
        Some metaAuthor \<Rightarrow> getAttribute metaAuthor (str ''content'')
      | None \<Rightarrow> Some (str ''SilentCoderHub''))"

text \<open>
  \<open>extractMetadata(htmlContent, filename)\<close>. The clock is read twice: \<open>now\<close> is the
  reading of line 57 (the default date), \<open>now'\<close> the reading of line 120
  (\<open>lastModified\<close>), both as \<open>toISOString()\<close> renders them.
\<close>

definition extractMetadata ::
  "(jsstring \<Rightarrow> document) \<Rightarrow> jsstring \<Rightarrow> jsstring \<Rightarrow> jsstring \<Rightarrow> jsstring \<Rightarrow> error + post" where
  "extractMetadata parse now now' htmlContent filename =
     (let doc = parse htmlContent;
          slug' = basename filename (str ''.html'')
      in case meta_date now doc slug' of
           Inl e \<Rightarrow> Inl e
         | Inr d \<Rightarrow>
             (case meta_tags doc of
                Inl e \<Rightarrow> Inl e
              | Inr ts \<Rightarrow>
                  Inr \<lparr> post_id = str ''post-'' @ slug',
                        title = meta_title doc,
                        excerpt = or_default (meta_excerpt doc) (str ''No excerpt available.''),
                        date = d,
                        category = meta_category doc,
                        tags = ts,
                        author = meta_author doc,
                        readTime = show_nat (meta_readTime (meta_wordCount doc)) @ str '' min read'',
                        slug = slug',
                        wordCount = meta_wordCount doc,
                        lastModified = now' \<rparr>))"

subsection \<open>Sorting\<close>

text \<open>
  \<open>Array.prototype.sort(cmp)\<close> is stable; \<open>a\<close> stays before \<open>b\<close> unless \<open>cmp(a, b) > 0\<close>.
  The model is insertion sort, which yields the one order a stable sort can yield when
  the comparator is a consistent ordering. (For a comparator that is not, as with an
  unparseable date below, ECMAScript leaves the resulting order to the implementation,
  and the model stands for the engine only where their comparisons agree.)
\<close>

fun insert_by :: "('a \<Rightarrow> 'a \<Rightarrow> int) \<Rightarrow> 'a \<Rightarrow> 'a list \<Rightarrow> 'a list" where
  "insert_by cmp x [] = [x]"
| "insert_by cmp x (y # ys) =
     (if cmp x y \<le> 0 then x # y # ys else y # insert_by cmp x ys)"

definition sort_by :: "('a \<Rightarrow> 'a \<Rightarrow> int) \<Rightarrow> 'a list \<Rightarrow> 'a list" where
  "sort_by cmp xs = foldr (insert_by cmp) xs []"

text \<open>
  The comparator \<open>(a, b) => new Date(b.date) - new Date(a.date)\<close>. \<open>time x\<close> is the time
  value of \<open>new Date(x.date)\<close>, \<open>None\<close> for an invalid date; the difference is then \<open>NaN\<close>,
  which the sort reads as \<open>+0\<close>.
\<close>

definition newest_first :: "('a \<Rightarrow> int option) \<Rightarrow> 'a \<Rightarrow> 'a \<Rightarrow> int" where
  "newest_first time a b =
     (case (time b, time a) of
        (Some tb, Some ta) \<Rightarrow> tb - ta
      | _ \<Rightarrow> 0)"

subsection \<open>\<open>generatePostsIndex\<close>\<close>

record tag_entry =
  tag_name :: jsstring
  tag_count :: nat

record category_entry =
  cat_name :: "jsstring option"
  cat_count :: nat
  description :: jsstring

record index_stats =
  totalWords :: nat
  averageReadTime :: "nat option"
  latestPost :: "jsstring option"
  oldestPost :: "jsstring option"

text \<open>
  The object written to \<open>posts.json\<close>. Its \<open>tags\<close> member is the field \<open>tags_index\<close>
  here, since \<open>tags\<close> names the field of a post.
\<close>

record artifact =
  generated :: jsstring
  totalPosts :: nat
  posts :: "post list"
  categories :: "category_entry list"
  tags_index :: "tag_entry list"
  stats :: index_stats

text \<open>The posts directory as the script sees it.\<close>

record filesystem =
  existsSync :: bool
  readdirSync :: "jsstring list"
  readFileSync :: "jsstring \<Rightarrow> jsstring option"

text \<open>\<open>Set.prototype.add\<close>: a set keeps its members once, in insertion order.\<close>

definition set_add :: "'a \<Rightarrow> 'a list \<Rightarrow> 'a list" where
  "set_add x xs = (if x \<in> set xs then xs else xs @ [x])"

text \<open>
  The state of the loop over the files: the posts pushed so far, the two sets, and the
  number of clock readings made so far.
\<close>

record scan =
  scanned :: "post list"
  seen_categories :: "jsstring option list"
  seen_tags :: "jsstring list"
  ticks :: nat

text \<open>
  One turn of the loop. A file that cannot be read, or whose extraction throws, is
  caught and skipped; a throwing extraction has read the clock once (line 57), a
  successful one twice.
\<close>

definition process_file ::
  "(jsstring \<Rightarrow> document) \<Rightarrow> (nat \<Rightarrow> jsstring) \<Rightarrow> (jsstring \<Rightarrow> jsstring option) \<Rightarrow>
   scan \<Rightarrow> jsstring \<Rightarrow> scan" where
  "process_file parse clock read st file =
     (case read file of
        None \<Rightarrow> st
      | Some htmlContent \<Rightarrow>
          (case extractMetadata parse (clock (ticks st)) (clock (Suc (ticks st))) htmlContent file of
             Inl e \<Rightarrow> st\<lparr> ticks := Suc (ticks st) \<rparr>
           | Inr metadata \<Rightarrow>
               \<lparr> scanned = scanned st @ [metadata],
                 seen_categories = set_add (category metadata) (seen_categories st),
                 seen_tags = foldl (\<lambda>acc tag. set_add tag acc) (seen_tags st) (tags metadata),
                 ticks = Suc (Suc (ticks st)) \<rparr>))"

definition process_files ::
  "(jsstring \<Rightarrow> document) \<Rightarrow> (nat \<Rightarrow> jsstring) \<Rightarrow> (jsstring \<Rightarrow> jsstring option) \<Rightarrow>
   jsstring list \<Rightarrow> scan" where
  "process_files parse clock read files =
     foldl (process_file parse clock read)
       \<lparr> scanned = [], seen_categories = [], seen_tags = [], ticks = 0 \<rparr> files"

text \<open>\<open>String(x)\<close>, which the default sort and a template literal apply: \<open>null\<close> reads "null".\<close>

definition to_string :: "jsstring option \<Rightarrow> jsstring" where
  "to_string v = (case v of None \<Rightarrow> str ''null'' | Some s \<Rightarrow> s)"

text \<open>
  \<open>parseInt\<close> on the \<open>readTime\<close> strings of line 117, which start with a decimal digit:
  leading whitespace is skipped and the digits are read; \<open>None\<close> is \<open>NaN\<close>.
\<close>

definition parseInt :: "jsstring \<Rightarrow> nat option" where
  "parseInt s =
     (let ds = takeWhile isDigit (dropWhile isWhiteSpace s)
      in if ds = [] then None else Some (foldl (\<lambda>n d. 10 * n + (d - 48)) 0 ds))"

text \<open>
  \<open>Math.round(sum / posts.length)\<close>: a \<open>NaN\<close> summand or an empty list gives \<open>NaN\<close>;
  otherwise the quotient is rounded half up.
\<close>

definition average_minutes :: "post list \<Rightarrow> nat option" where
  "average_minutes ps =
     (let ms = map (\<lambda>p. parseInt (readTime p)) ps
      in if ps = [] \<or> None \<in> set ms then None
         else Some ((2 * sum_list (map the ms) + length ps) div (2 * length ps)))"

definition build_index :: "(jsstring \<Rightarrow> int option) \<Rightarrow> jsstring \<Rightarrow> scan \<Rightarrow> artifact" where
  "build_index Date_parse now st =
     (let sorted = sort_by (newest_first (\<lambda>p. Date_parse (date p))) (scanned st)
      in \<lparr> generated = now,
           totalPosts = length sorted,
           posts = sorted,
           categories =
             map (\<lambda>cat. \<lparr> cat_name = cat,
                          cat_count = length (filter (\<lambda>p. category p = cat) sorted),
                          description = str ''Posts about '' @ to_string cat \<rparr>)
                 (sort_key to_string (seen_categories st)),
           tags_index =
             map (\<lambda>tag. \<lparr> tag_name = tag,
                          tag_count = length (filter (\<lambda>p. tag \<in> set (tags p)) sorted) \<rparr>)
                 (sort (seen_tags st)),
           stats =
             \<lparr> totalWords = sum_list (map wordCount sorted),
               averageReadTime = average_minutes sorted,
               latestPost = (if sorted = [] then None else Some (date (hd sorted))),
               oldestPost = (if sorted = [] then None else Some (date (last sorted))) \<rparr> \<rparr>)"

text \<open>
  \<open>generatePostsIndex\<close>: the object handed to \<open>writeFileSync\<close>, or \<open>None\<close> when the
  script returns early without writing (no posts directory, or no \<open>.html\<close> entry in it).
  \<open>Date_parse\<close> is the engine's date parser and \<open>clock k\<close> the \<open>k\<close>-th reading of
  \<open>new Date().toISOString()\<close> during the run.
\<close>

definition generatePostsIndex ::
  "(jsstring \<Rightarrow> document) \<Rightarrow> (nat \<Rightarrow> jsstring) \<Rightarrow> (jsstring \<Rightarrow> int option) \<Rightarrow>
   filesystem \<Rightarrow> artifact option" where
  "generatePostsIndex parse clock Date_parse fs =
     (if \<not> existsSync fs then None
      else
        (let files = sort (filter (\<lambda>file. endsWith file (str ''.html'')) (readdirSync fs))
         in if length files = 0 then None
            else
              (let st = process_files parse clock (readFileSync fs) files
               in Some (build_index Date_parse (clock (ticks st)) st))))"

section \<open>The runtime loader: \<open>script.js\<close>\<close>

record rpost =
  r_id :: jsstring
  r_title :: jsstring
  r_excerpt :: "jsstring option"
  r_content :: jsstring
  r_date :: "jsstring option"
  r_category :: "jsstring option"
  r_tags :: "jsstring list"
  r_author :: jsstring
  r_readTime :: jsstring
  r_slug :: jsstring

text \<open>\<open>a || b || c || d\<close> on the results of \<open>querySelector\<close>.\<close>

fun first_found :: "document \<Rightarrow> selector list \<Rightarrow> node option" where
  "first_found doc [] = None"
| "first_found doc (sel # sels) =
     (case querySelector doc sel of
        Some el \<Rightarrow> Some el
      | None \<Rightarrow> first_found doc sels)"

definition extractTitle :: "document \<Rightarrow> jsstring" where
  "extractTitle doc =
     (case first_found doc
             [[Is (Tag (str ''h1''))], [Is (Tag (str ''title''))],
              [Is (Class (str ''post-title''))], [Is (Class (str ''title''))]] of
        Some titleEl \<Rightarrow> trim (textContent titleEl)
      | None \<Rightarrow> str ''Untitled Post'')"

definition extractExcerpt :: "document \<Rightarrow> jsstring option" where
  "extractExcerpt doc =
     (case querySelector doc (meta_name ''description'') of
        Some metaDesc \<Rightarrow> getAttribute metaDesc (str ''content'')
      | None \<Rightarrow>
          (case querySelector doc [Is (Tag (str ''p''))] of
             Some firstP \<Rightarrow>
               (let text = trim (textContent firstP)
                in if length text > 200 then Some (take 200 text @ str ''...'')
                   else Some text)
           | None \<Rightarrow> Some (str ''No excerpt available.'')))"

text \<open>\<open>now\<close> is what \<open>new Date().toISOString()\<close> returns if the last branch reads it.\<close>

definition extractDate :: "jsstring \<Rightarrow> document \<Rightarrow> jsstring \<Rightarrow> jsstring option" where
  "extractDate now doc slug' =
     (case first_found doc
             [[Is (TagAttr (str ''meta'') (str ''name'') (str ''date''))],
              [Is (TagAttr (str ''meta'') (str ''property'') (str ''article:published_time''))]] of
        Some metaDate \<Rightarrow> getAttribute metaDate (str ''content'')
      | None \<Rightarrow>
          (case match_date slug' of
             Some dateMatch \<Rightarrow> Some dateMatch
           | None \<Rightarrow> Some (date_part now)))"

definition extractCategory :: "document \<Rightarrow> jsstring option" where
  "extractCategory doc =
     (case querySelector doc (meta_name ''category'') of
        Some metaCat \<Rightarrow> getAttribute metaCat (str ''content'')
      | None \<Rightarrow>
          (case first_found doc
                  [[Is (Class (str ''category''))], [Is (Class (str ''post-category''))]] of
             Some catEl \<Rightarrow> Some (trim (textContent catEl))
           | None \<Rightarrow> Some (str ''General'')))"

definition extractTags :: "document \<Rightarrow> error + jsstring list" where
  "extractTags doc =
     (case querySelector doc (meta_name ''keywords'') of
        Some metaTags \<Rightarrow>
          (case getAttribute metaTags (str ''content'') of
             None \<Rightarrow> Inl TypeError
           | Some c \<Rightarrow> Inr (map trim (split_on 44 c)))
      | None \<Rightarrow>
          (let tagElements = querySelectorAll doc [Is (Class (str ''tag'')), Is (Class (str ''post-tag''))]
           in if length tagElements > 0
              then Inr (map (\<lambda>el. trim (textContent el)) tagElements)
              else Inr [str ''Blog'']))"

definition calculateReadTime :: "jsstring \<Rightarrow> jsstring" where
  "calculateReadTime text =
     (let wordsPerMinute = 200;
          words = length (split_ws text);
          minutes = (words + (wordsPerMinute - 1)) div wordsPerMinute
      in show_nat minutes @ str '' min read'')"

definition parsePostHTML ::
  "(jsstring \<Rightarrow> document) \<Rightarrow> jsstring \<Rightarrow> jsstring \<Rightarrow> jsstring \<Rightarrow> error + rpost" where
  "parsePostHTML parse now html slug' =
     (let doc = parse html in
      case extractTags doc of
        Inl e \<Rightarrow> Inl e
      | Inr ts \<Rightarrow>
          Inr \<lparr> r_id = str ''post-'' @ slug',
                r_title = extractTitle doc,
                r_excerpt = extractExcerpt doc,
                r_content = html,
                r_date = extractDate now doc slug',
                r_category = extractCategory doc,
                r_tags = ts,
                r_author = str ''SilentCoderHub'',
                r_readTime = calculateReadTime (textContent (body doc)),
                r_slug = slug' \<rparr>)"

text \<open>
  What the page can reach: \<open>fetch url\<close> is \<open>None\<close> when the request is rejected and the
  response otherwise; \<open>json_posts\<close> is the \<open>posts\<close> member of the decoded body of
  \<open>posts.json\<close>: \<open>Inl\<close> when \<open>response.json()\<close> or the member access throws,
  \<open>Inr None\<close> when the member is missing or falsy, \<open>Inr (Some ps)\<close> for an array.
  \<open>clock k\<close> is the reading of the clock while the \<open>k\<close>-th known post is parsed.
\<close>

datatype response = Response (ok: bool) (response_text: jsstring)

record browser =
  fetch :: "jsstring \<Rightarrow> response option"
  json_posts :: "jsstring \<Rightarrow> error + rpost list option"
  DOMParser :: "jsstring \<Rightarrow> document"
  clock :: "nat \<Rightarrow> jsstring"
  Date_parse :: "jsstring \<Rightarrow> int option"

text \<open>The \<open>try\<close> of \<open>loadAndParsePost\<close> catches every failure and returns \<open>null\<close>.\<close>

definition loadAndParsePost :: "browser \<Rightarrow> nat \<Rightarrow> jsstring \<Rightarrow> rpost option" where
  "loadAndParsePost env k slug' =
     (case fetch env (str ''./posts/'' @ slug' @ str ''.html'') of
        None \<Rightarrow> None
      | Some response \<Rightarrow>
          if \<not> ok response then None
          else (case parsePostHTML (DOMParser env) (clock env k) (response_text response) slug' of
                  Inl e \<Rightarrow> None
                | Inr postData \<Rightarrow> Some postData))"

definition knownPosts :: "jsstring list" where
  "knownPosts = [str ''what-exactly-is-a-computer'']"

text \<open>\<open>new Date(post.date)\<close>: \<open>new Date(null)\<close> is the epoch.\<close>

definition post_time :: "browser \<Rightarrow> rpost \<Rightarrow> int option" where
  "post_time env p = (case r_date p of None \<Rightarrow> Some 0 | Some d \<Rightarrow> Date_parse env d)"

text \<open>
  The loop of \<open>discoverPosts\<close> over the known posts: the records pushed, in order.
\<close>

definition discovered :: "browser \<Rightarrow> rpost list" where
  "discovered env =
     concat (map (\<lambda>(k, slug').
                    case loadAndParsePost env k slug' of
                      None \<Rightarrow> []
                    | Some postData \<Rightarrow> [postData])
                 (enumerate 0 knownPosts))"

definition discoverPosts :: "browser \<Rightarrow> error + rpost list" where
  "discoverPosts env = Inr (sort_by (newest_first (post_time env)) (discovered env))"

definition fetchPostsFromIndex :: "browser \<Rightarrow> error + rpost list" where
  "fetchPostsFromIndex env =
     (case fetch env (str ''./posts/posts.json'') of
        None \<Rightarrow> Inr []
      | Some response \<Rightarrow>
          if ok response
          then (case json_posts env (response_text response) of
                  Inl e \<Rightarrow> Inr []
                | Inr None \<Rightarrow> Inr []
                | Inr (Some ps) \<Rightarrow> Inr ps)
          else Inr [])"

definition getSamplePosts :: "rpost list" where
  "getSamplePosts =
     [\<lparr> r_id = str ''post-what-exactly-is-a-computer'',
        r_title = str ''What Exactly is a Computer? Understanding the Essentials'',
        r_excerpt = Some (str ''Ever wondered what defines a computer? Let'' @ [39] @
          str ''s dive into its core functions, key features, and its remarkable place in both work and life. From simple devices to powerful companions.''),
        r_content = [],
        r_date = Some (str ''2025-09-23''),
        r_category = Some (str ''Computer Basics''),
        r_tags = [str ''Computer Science'', str ''Technology'', str ''Hardware'', str ''Basics''],
        r_author = str ''SilentCoderHub'',
        r_readTime = str ''6 min read'',
        r_slug = str ''what-exactly-is-a-computer'' \<rparr>,
      \<lparr> r_id = str ''post-sample-2'',
        r_title = str ''Getting Started with Web Development'',
        r_excerpt = Some (str ''A comprehensive guide to beginning your journey in web development. Learn about HTML, CSS, JavaScript, and modern frameworks.''),
        r_content = [],
        r_date = Some (str ''2025-09-20''),
        r_category = Some (str ''Web Development''),
        r_tags = [str ''HTML'', str ''CSS'', str ''JavaScript'', str ''Frontend''],
        r_author = str ''SilentCoderHub'',
        r_readTime = str ''8 min read'',
        r_slug = str ''getting-started-web-development'' \<rparr>,
      \<lparr> r_id = str ''post-sample-3'',
        r_title = str ''Understanding JavaScript Closures'',
        r_excerpt = Some (str ''Dive deep into one of JavaScript'' @ [39] @
          str ''s most powerful features. Learn how closures work and how to use them effectively in your code.''),
        r_content = [],
        r_date = Some (str ''2025-09-18''),
        r_category = Some (str ''Programming''),
        r_tags = [str ''JavaScript'', str ''Programming Concepts'', str ''Functions''],
        r_author = str ''SilentCoderHub'',
        r_readTime = str ''10 min read'',
        r_slug = str ''understanding-javascript-closures'' \<rparr>]"

text \<open>
  \<open>loadAllPosts\<close>: the value \<open>allPosts\<close> holds afterwards. The \<open>catch\<close> branch, which
  assigns the sample posts, runs when a call inside the \<open>try\<close> throws.
\<close>

definition loadAllPosts :: "browser \<Rightarrow> rpost list" where
  "loadAllPosts env =
     (case fetchPostsFromIndex env of
        Inl e \<Rightarrow> getSamplePosts
      | Inr ps \<Rightarrow>
          if length ps > 0 then ps
          else (case discoverPosts env of
                  Inl e \<Rightarrow> getSamplePosts
                | Inr found \<Rightarrow> found))"

section \<open>Concrete documents and environments\<close>

text \<open>\<open><meta name="n" content="c">\<close> and \<open><meta name="n">\<close>.\<close>

definition meta :: "string \<Rightarrow> string \<Rightarrow> node" where
  "meta n c = Element (str ''meta'') [(str ''name'', str n), (str ''content'', str c)] []"

definition meta_without_content :: "string \<Rightarrow> node" where
  "meta_without_content n = Element (str ''meta'') [(str ''name'', str n)] []"

definition para :: "jsstring \<Rightarrow> node" where
  "para t = Element (str ''p'') [] [Text t]"

definition page :: "node list \<Rightarrow> node list \<Rightarrow> document" where
  "page h b = \<lparr> html_attributes = [], head_attributes = [], head_nodes = h,
               body_attributes = [], body_nodes = b \<rparr>"

text \<open>A parser that returns the same tree for every input.\<close>

definition parse_as :: "document \<Rightarrow> jsstring \<Rightarrow> document" where
  "parse_as doc html = doc"

text \<open>
  Three posts. The markup of each is abbreviated to a key, which \<open>parse_posts\<close> maps to
  the tree a parser would build: \<open>a.html\<close> is dated 2025-09-20 with keywords \<open>X\<close>,
  \<open>b.html\<close> is dated 2025-09-23 with keywords \<open>X, Y\<close>, \<open>c.html\<close> is dated 2025-09-18
  with keywords \<open>W, W\<close>.
\<close>

definition doc_a :: document where
  "doc_a = page [meta ''date'' ''2025-09-20'', meta ''keywords'' ''X''] [para (str ''one'')]"

definition doc_b :: document where
  "doc_b = page [meta ''date'' ''2025-09-23'', meta ''keywords'' ''X, Y''] [para (str ''two'')]"

definition doc_c :: document where
  "doc_c = page [meta ''date'' ''2025-09-18'', meta ''keywords'' ''W, W''] [para (str ''three'')]"

definition parse_posts :: "jsstring \<Rightarrow> document" where
  "parse_posts html =
     (if html = str ''A'' then doc_a
      else if html = str ''B'' then doc_b
      else if html = str ''C'' then doc_c
      else page [] [])"

definition read_posts :: "jsstring \<Rightarrow> jsstring option" where
  "read_posts file =
     (if file = str ''a.html'' then Some (str ''A'')
      else if file = str ''b.html'' then Some (str ''B'')
      else if file = str ''c.html'' then Some (str ''C'')
      else None)"

definition three_posts :: filesystem where
  "three_posts =
     \<lparr> existsSync = True,
       readdirSync = [str ''b.html'', str ''notes.txt'', str ''c.html'', str ''a.html''],
       readFileSync = read_posts \<rparr>"

definition two_posts :: filesystem where
  "two_posts =
     \<lparr> existsSync = True,
       readdirSync = [str ''b.html'', str ''a.html''],
       readFileSync = read_posts \<rparr>"

definition morning :: "nat \<Rightarrow> jsstring" where
  "morning k = str ''2025-09-24T08:00:00.000Z''"

definition evening :: "nat \<Rightarrow> jsstring" where
  "evening k = str ''2025-09-24T20:00:00.000Z''"

text \<open>
  A date parser for the date-only form \<open>YYYY-MM-DD\<close> of the ECMAScript date-time string
  format, which is read as midnight UTC: milliseconds since the epoch, or \<open>None\<close> for
  any other string. It stands for the engine's parser in the examples.
\<close>

definition digits_value :: "jsstring \<Rightarrow> int" where
  "digits_value ds = foldl (\<lambda>n d. 10 * n + (int d - 48)) 0 ds"

definition days_in_month :: "int \<Rightarrow> int \<Rightarrow> int" where
  "days_in_month y m =
     (if m = 2 then (if y mod 4 = 0 \<and> (y mod 100 \<noteq> 0 \<or> y mod 400 = 0) then 29 else 28)
      else if m = 4 \<or> m = 6 \<or> m = 9 \<or> m = 11 then 30 else 31)"

definition days_from_civil :: "int \<Rightarrow> int \<Rightarrow> int \<Rightarrow> int" where
  "days_from_civil y m d =
     (let y' = (if m \<le> 2 then y - 1 else y);
          era = y' div 400;
          yoe = y' - era * 400;
          doy = (153 * (if m > 2 then m - 3 else m + 9) + 2) div 5 + d - 1;
          doe = yoe * 365 + yoe div 4 - yoe div 100 + doy
      in era * 146097 + doe - 719468)"

definition iso_date_only :: "jsstring \<Rightarrow> int option" where
  "iso_date_only s =
     (if length s = 10 \<and> date_pattern_here s
      then (let y = digits_value (take 4 s);
                m = digits_value (take 2 (drop 5 s));
                d = digits_value (take 2 (drop 8 s))
            in if 1 \<le> m \<and> m \<le> 12 \<and> 1 \<le> d \<and> d \<le> days_in_month y m
               then Some (86400000 * days_from_civil y m d)
               else None)
      else None)"

text \<open>
  The record \<open>extractMetadata\<close> builds for a page that has a one-word paragraph and no
  title, category or author of its own.
\<close>

definition post_of :: "string \<Rightarrow> string \<Rightarrow> string \<Rightarrow> string list \<Rightarrow> jsstring \<Rightarrow> post" where
  "post_of name' words day ts modified =
     \<lparr> post_id = str ''post-'' @ str name', title = str ''Untitled Post'', excerpt = str words,
       date = str day, category = Some (str ''General''), tags = map str ts,
       author = Some (str ''SilentCoderHub''), readTime = str ''1 min read'', slug = str name',
       wordCount = 1, lastModified = modified \<rparr>"

text \<open>A paragraph that holds an image and no text: \<open><p><img src="a.png"></p>\<close>.\<close>

definition image_para :: node where
  "image_para = Element (str ''p'') [] [Element (str ''img'') [(str ''src'', str ''a.png'')] []]"

text \<open>A site on which every request is answered 404.\<close>

definition missing_site :: browser where
  "missing_site =
     \<lparr> fetch = (\<lambda>url. Some (Response False (str ''Not Found''))),
       json_posts = (\<lambda>b. Inl TypeError),
       DOMParser = parse_as (page [] []),
       clock = morning,
       Date_parse = iso_date_only \<rparr>"

section \<open>Notions used in the statements\<close>

text \<open>A string of the form \<open>YYYY-MM-DD\<close>: ten characters, digits around two hyphens.\<close>

definition is_calendar_date :: "jsstring \<Rightarrow> bool" where
  "is_calendar_date s \<longleftrightarrow> length s = 10 \<and> date_pattern_here s"

text \<open>A matched \<open>meta\<close> element, if there is one, carries a \<open>content\<close> attribute.\<close>

fun has_content :: "node option \<Rightarrow> bool" where
  "has_content None = True"
| "has_content (Some el) = (getAttribute el (str ''content'') \<noteq> None)"

text \<open>The selector list of line 58 of the indexer.\<close>

definition date_metas :: selector where
  "date_metas =
     [Is (TagAttr (str ''meta'') (str ''name'') (str ''date'')),
      Is (TagAttr (str ''meta'') (str ''property'') (str ''article:published_time''))]"

text \<open>The element \<open>extractDate\<close> of the runtime takes the date from.\<close>

definition runtime_date_meta :: "document \<Rightarrow> node option" where
  "runtime_date_meta doc =
     first_found doc
       [[Is (TagAttr (str ''meta'') (str ''name'') (str ''date''))],
        [Is (TagAttr (str ''meta'') (str ''property'') (str ''article:published_time''))]]"

text \<open>The \<open>meta\<close> elements each builder reads a \<open>content\<close> attribute from.\<close>

definition offline_metas :: "document \<Rightarrow> node option list" where
  "offline_metas doc =
     [querySelector doc (meta_name ''description''), querySelector doc date_metas,
      querySelector doc (meta_name ''category''), querySelector doc (meta_name ''keywords''),
      querySelector doc (meta_name ''author'')]"

definition runtime_metas :: "document \<Rightarrow> node option list" where
  "runtime_metas doc =
     [querySelector doc (meta_name ''description''), runtime_date_meta doc,
      querySelector doc (meta_name ''category''), querySelector doc (meta_name ''keywords'')]"

text \<open>The first paragraph, as each program selects it.\<close>

definition first_paragraph_offline :: "document \<Rightarrow> node option" where
  "first_paragraph_offline doc =
     querySelector doc [Inside (Class (str ''post-content'')) (Tag (str ''p'')), Is (Tag (str ''p''))]"

definition first_paragraph_runtime :: "document \<Rightarrow> node option" where
  "first_paragraph_runtime doc = querySelector doc [Is (Tag (str ''p''))]"

text \<open>\<open>a\<close> is at least as new as \<open>b\<close>, for records whose dates are valid.\<close>

definition newer_or_same :: "('a \<Rightarrow> int option) \<Rightarrow> 'a \<Rightarrow> 'a \<Rightarrow> bool" where
  "newer_or_same time a b \<longleftrightarrow> the (time b) \<le> the (time a)"

text \<open>The records the indexer has pushed, in the order it met the files, before sorting.\<close>

definition extracted :: "(jsstring \<Rightarrow> document) \<Rightarrow> (nat \<Rightarrow> jsstring) \<Rightarrow> filesystem \<Rightarrow> post list" where
  "extracted parse clk fs =
     scanned (process_files parse clk (readFileSync fs)
                (sort (filter (\<lambda>file. endsWith file (str ''.html'')) (readdirSync fs))))"

text \<open>An artifact with its clock readings blanked.\<close>

definition without_modified :: "post \<Rightarrow> post" where
  "without_modified p = p\<lparr> lastModified := [] \<rparr>"

definition without_timestamps :: "artifact \<Rightarrow> artifact" where
  "without_timestamps a = a\<lparr> generated := [], posts := map without_modified (posts a) \<rparr>"

text \<open>What the loop over the files maintains: the two sets hold exactly the tags and
  categories of the posts pushed so far, each once.\<close>

definition scan_inv :: "scan \<Rightarrow> bool" where
  "scan_inv st \<longleftrightarrow>
     set (seen_tags st) = \<Union> (set ` tags ` set (scanned st)) \<and> distinct (seen_tags st) \<and>
     set (seen_categories st) = category ` set (scanned st) \<and> distinct (seen_categories st)"

text \<open>Two states of the loop that agree up to \<open>lastModified\<close>.\<close>

definition same_scan :: "scan \<Rightarrow> scan \<Rightarrow> bool" where
  "same_scan s t \<longleftrightarrow>
     map without_modified (scanned s) = map without_modified (scanned t) \<and>
     seen_categories s = seen_categories t \<and> seen_tags s = seen_tags t \<and> ticks s = ticks t"

text \<open>
  Three posts, one of them with a date that no parser accepts. The markup of each is
  abbreviated to the content of its date \<open>meta\<close> element, and \<open>parse_dated\<close> builds the
  page that holds just that element: \<open>a.html\<close> is dated 2025-01-01, \<open>b.html\<close> is dated
  \<open>bad\<close>, \<open>c.html\<close> is dated 2025-12-31.
\<close>

definition parse_dated :: "jsstring \<Rightarrow> document" where
  "parse_dated html =
     page [Element (str ''meta'') [(str ''name'', str ''date''), (str ''content'', html)] []] []"

definition read_dated :: "jsstring \<Rightarrow> jsstring option" where
  "read_dated file =
     (if file = str ''a.html'' then Some (str ''2025-01-01'')
      else if file = str ''b.html'' then Some (str ''bad'')
      else if file = str ''c.html'' then Some (str ''2025-12-31'')
      else None)"

definition bad_date_posts :: filesystem where
  "bad_date_posts =
     \<lparr> existsSync = True,
       readdirSync = [str ''a.html'', str ''b.html'', str ''c.html''],
       readFileSync = read_dated \<rparr>"

section \<open>Evaluating the model\<close>

lemmas string_defs = str_def trim_def isWhiteSpace_def isLineTerminator_def isDigit_def
  isAsciiWhitespace_def endsWith_def basename_def date_part_def split_ws_def

lemmas dom_defs = querySelector_def querySelectorAll_def documentElement_def body_def
  classList_def meta_name_def meta_def meta_without_content_def para_def page_def

lemmas extract_defs = extractMetadata_def meta_title_def meta_excerpt_def meta_date_def
  meta_category_def meta_tags_def meta_author_def meta_wordCount_def meta_readTime_def
  or_default_def Let_def

lemmas runtime_defs = parsePostHTML_def extractTitle_def extractExcerpt_def extractDate_def
  extractCategory_def extractTags_def calculateReadTime_def Let_def

lemma extract_a:
  "extractMetadata parse_posts n n' (str ''A'') (str ''a.html'') = Inr (post_of ''a'' ''one'' ''2025-09-20'' [''X''] n')"
  by (simp add: extract_defs dom_defs string_defs parse_posts_def doc_a_def post_of_def show_nat.simps)

lemma extract_b:
  "extractMetadata parse_posts n n' (str ''B'') (str ''b.html'') = Inr (post_of ''b'' ''two'' ''2025-09-23'' [''X'', ''Y''] n')"
  by (simp add: extract_defs dom_defs string_defs parse_posts_def doc_b_def post_of_def show_nat.simps)

lemma extract_c:
  "extractMetadata parse_posts n n' (str ''C'') (str ''c.html'') = Inr (post_of ''c'' ''three'' ''2025-09-18'' [''W'', ''W''] n')"
  by (simp add: extract_defs dom_defs string_defs parse_posts_def doc_c_def post_of_def show_nat.simps)

lemma files_three:
  "sort (filter (\<lambda>file. endsWith file (str ''.html'')) (readdirSync three_posts)) = [str ''a.html'', str ''b.html'', str ''c.html'']"
  by (simp add: three_posts_def string_defs)

lemma scan_three:
  "process_files parse_posts clk read_posts [str ''a.html'', str ''b.html'', str ''c.html''] =
    \<lparr> scanned = [post_of ''a'' ''one'' ''2025-09-20'' [''X''] (clk 1), post_of ''b'' ''two'' ''2025-09-23'' [''X'', ''Y''] (clk 3),
        post_of ''c'' ''three'' ''2025-09-18'' [''W'', ''W''] (clk 5)],
      seen_categories = [Some (str ''General'')], seen_tags = [str ''X'', str ''Y'', str ''W''], ticks = 6 \<rparr>"
proof -
  have r: "read_posts (str ''a.html'') = Some (str ''A'')" "read_posts (str ''b.html'') = Some (str ''B'')"
     "read_posts (str ''c.html'') = Some (str ''C'')"
    by (simp_all add: read_posts_def str_def)
  show ?thesis
    by (simp add: process_files_def process_file_def r extract_a extract_b extract_c set_add_def)
       (simp add: post_of_def str_def, simp add: eval_nat_numeral)
qed


lemma run_three:
  "generatePostsIndex parse_posts clk iso_date_only three_posts = Some (build_index iso_date_only (clk 6)
    \<lparr> scanned = [post_of ''a'' ''one'' ''2025-09-20'' [''X''] (clk 1), post_of ''b'' ''two'' ''2025-09-23'' [''X'', ''Y''] (clk 3),
        post_of ''c'' ''three'' ''2025-09-18'' [''W'', ''W''] (clk 5)],
      seen_categories = [Some (str ''General'')], seen_tags = [str ''X'', str ''Y'', str ''W''], ticks = 6 \<rparr>)"
proof -
  have "readFileSync three_posts = read_posts" "existsSync three_posts"
    by (simp_all add: three_posts_def)
  then show ?thesis
    by (simp add: generatePostsIndex_def files_three scan_three Let_def)
qed

lemma iso_dates:
  "iso_date_only (str ''2025-09-20'') = Some 1758326400000"
  "iso_date_only (str ''2025-09-23'') = Some 1758585600000"
  "iso_date_only (str ''2025-09-18'') = Some 1758153600000"
  by (simp_all add: iso_date_only_def date_pattern_here_def isDigit_def str_def digits_value_def
      days_in_month_def days_from_civil_def Let_def)

lemma sorted_three:
  "sort_by (newest_first (\<lambda>p. iso_date_only (date p)))
     [post_of ''a'' ''one'' ''2025-09-20'' [''X''] m1, post_of ''b'' ''two'' ''2025-09-23'' [''X'', ''Y''] m2,
        post_of ''c'' ''three'' ''2025-09-18'' [''W'', ''W''] m3] =
     [post_of ''b'' ''two'' ''2025-09-23'' [''X'', ''Y''] m2, post_of ''a'' ''one'' ''2025-09-20'' [''X''] m1,
        post_of ''c'' ''three'' ''2025-09-18'' [''W'', ''W''] m3]"
proof -
  have d: "date (post_of n t d ts m) = str d" for n t d ts m by (simp add: post_of_def)
  show ?thesis
    by (simp add: sort_by_def newest_first_def d iso_dates)
qed

lemma tags_three:
  "map_option (map tag_name \<circ> tags_index) (generatePostsIndex parse_posts clk iso_date_only three_posts) = Some [str ''W'', str ''X'', str ''Y'']"
  "map_option (map tag_count \<circ> tags_index) (generatePostsIndex parse_posts clk iso_date_only three_posts) = Some [1, 2, 1]"
  "map_option (map date \<circ> posts) (generatePostsIndex parse_posts clk iso_date_only three_posts) = Some [str ''2025-09-23'', str ''2025-09-20'', str ''2025-09-18'']"
  "map_option (map lastModified \<circ> posts) (generatePostsIndex parse_posts clk iso_date_only three_posts) = Some [clk 3, clk 1, clk 5]"
proof -
  have t: "tags (post_of n t d ts m) = map str ts" "date (post_of n t d ts m) = str d"
     "lastModified (post_of n t d ts m) = m" for n t d ts m by (simp_all add: post_of_def)
  have s: "str ''X'' \<le> str ''Y''" "\<not> str ''X'' \<le> str ''W''" "\<not> str ''Y'' \<le> str ''W''"
    by (simp_all add: str_def)
  have ne: "str ''W'' \<noteq> str ''X''" "str ''W'' \<noteq> str ''Y''"  "str ''X'' \<noteq> str ''Y''" "str ''X'' \<noteq> str ''W''"
    "str ''Y'' \<noteq> str ''X''" "str ''Y'' \<noteq> str ''W''"
    by (simp_all add: str_def)
  show "map_option (map tag_name \<circ> tags_index) (generatePostsIndex parse_posts clk iso_date_only three_posts) = Some [str ''W'', str ''X'', str ''Y'']"
    by (simp add: run_three build_index_def sorted_three s Let_def)
  show "map_option (map tag_count \<circ> tags_index) (generatePostsIndex parse_posts clk iso_date_only three_posts) = Some [1, 2, 1]"
    by (simp add: run_three build_index_def sorted_three s Let_def t ne)
  show "map_option (map date \<circ> posts) (generatePostsIndex parse_posts clk iso_date_only three_posts) = Some [str ''2025-09-23'', str ''2025-09-20'', str ''2025-09-18'']"
    by (simp add: run_three build_index_def sorted_three Let_def t)
  show "map_option (map lastModified \<circ> posts) (generatePostsIndex parse_posts clk iso_date_only three_posts) = Some [clk 3, clk 1, clk 5]"
    by (simp add: run_three build_index_def sorted_three Let_def t)
qed

lemma post_of_fields:
  "tags (post_of n t d ts m) = map str ts" "date (post_of n t d ts m) = str d"
  "lastModified (post_of n t d ts m) = m"
  by (simp_all add: post_of_def)

lemma three_posts_artifact:
  "\<exists>a. generatePostsIndex parse_posts clk iso_date_only three_posts = Some a \<and>
       posts a = [post_of ''b'' ''two'' ''2025-09-23'' [''X'', ''Y''] (clk 3),
                  post_of ''a'' ''one'' ''2025-09-20'' [''X''] (clk 1),
                  post_of ''c'' ''three'' ''2025-09-18'' [''W'', ''W''] (clk 5)] \<and>
       tags_index a = [\<lparr> tag_name = str ''W'', tag_count = 1 \<rparr>, \<lparr> tag_name = str ''X'', tag_count = 2 \<rparr>,
                       \<lparr> tag_name = str ''Y'', tag_count = 1 \<rparr>]"
proof -
  have s: "str ''X'' \<le> str ''Y''" "\<not> str ''X'' \<le> str ''W''" "\<not> str ''Y'' \<le> str ''W''"
    by (simp_all add: str_def)
  have ne: "str ''W'' \<noteq> str ''X''" "str ''W'' \<noteq> str ''Y''"  "str ''X'' \<noteq> str ''Y''" "str ''X'' \<noteq> str ''W''"
    "str ''Y'' \<noteq> str ''X''" "str ''Y'' \<noteq> str ''W''"
    by (simp_all add: str_def)
  show ?thesis
    by (simp add: run_three build_index_def sorted_three s ne Let_def post_of_fields)
qed

lemma extracted_three:
  "extracted parse_posts clk three_posts =
     [post_of ''a'' ''one'' ''2025-09-20'' [''X''] (clk 1),
      post_of ''b'' ''two'' ''2025-09-23'' [''X'', ''Y''] (clk 3),
      post_of ''c'' ''three'' ''2025-09-18'' [''W'', ''W''] (clk 5)]"
proof -
  have "readFileSync three_posts = read_posts" by (simp add: three_posts_def)
  then show ?thesis by (simp add: extracted_def files_three scan_three)
qed

lemma files_two:
  "sort (filter (\<lambda>file. endsWith file (str ''.html'')) (readdirSync two_posts)) = [str ''a.html'', str ''b.html'']"
  by (simp add: two_posts_def string_defs)

lemma scan_two:
  "process_files parse_posts clk read_posts [str ''a.html'', str ''b.html''] =
    \<lparr> scanned = [post_of ''a'' ''one'' ''2025-09-20'' [''X''] (clk 1), post_of ''b'' ''two'' ''2025-09-23'' [''X'', ''Y''] (clk 3)],
      seen_categories = [Some (str ''General'')], seen_tags = [str ''X'', str ''Y''], ticks = 4 \<rparr>"
proof -
  have r: "read_posts (str ''a.html'') = Some (str ''A'')" "read_posts (str ''b.html'') = Some (str ''B'')"
    by (simp_all add: read_posts_def str_def)
  show ?thesis
    by (simp add: process_files_def process_file_def r extract_a extract_b set_add_def)
       (simp add: post_of_def str_def, simp add: eval_nat_numeral)
qed

lemma two_posts_artifact:
  "\<exists>a. generatePostsIndex parse_posts clk iso_date_only two_posts = Some a \<and>
       tags_index a = [\<lparr> tag_name = str ''X'', tag_count = 2 \<rparr>, \<lparr> tag_name = str ''Y'', tag_count = 1 \<rparr>]"
proof -
  have f: "readFileSync two_posts = read_posts" "existsSync two_posts"
    by (simp_all add: two_posts_def)
  have s: "str ''X'' \<le> str ''Y''" "str ''X'' \<noteq> str ''Y''" "str ''Y'' \<noteq> str ''X''"
    by (simp_all add: str_def)
  show ?thesis
    by (simp add: generatePostsIndex_def files_two scan_two f build_index_def Let_def
        sort_by_def newest_first_def post_of_fields iso_dates s)
qed

section \<open>Properties of the sort\<close>

lemma mset_insert_by: "mset (insert_by cmp x ys) = add_mset x (mset ys)"
  by (induction ys) simp_all

lemma mset_sort_by: "mset (sort_by cmp xs) = mset xs"
  by (induction xs) (simp_all add: sort_by_def mset_insert_by)

lemma set_sort_by: "set (sort_by cmp xs) = set xs"
  using mset_sort_by [of cmp xs] by (metis set_mset_mset)

lemma length_sort_by: "length (sort_by cmp xs) = length xs"
  using mset_sort_by [of cmp xs] by (metis size_mset)

lemma sorted_insert_by:
  assumes "time x \<noteq> None" "\<forall>y\<in>set ys. time y \<noteq> None"
    and "sorted_wrt (newer_or_same time) ys"
  shows "sorted_wrt (newer_or_same time) (insert_by (newest_first time) x ys)"
  using assms
proof (induction ys)
  case Nil
  then show ?case by simp
next
  case (Cons y ys)
  from Cons.prems obtain tx ty where t: "time x = Some tx" "time y = Some ty" by auto
  show ?case
  proof (cases "newest_first time x y \<le> 0")
    case True
    with t have "ty \<le> tx" by (simp add: newest_first_def)
    with Cons.prems t True show ?thesis
      by (auto simp: newer_or_same_def)
  next
    case False
    with t have "tx < ty" by (simp add: newest_first_def)
    moreover have "set (insert_by (newest_first time) x ys) = insert x (set ys)"
      using mset_insert_by [of "newest_first time" x ys] by (metis set_mset_mset set_mset_add_mset_insert)
    ultimately show ?thesis using Cons False t
      by (auto simp: newer_or_same_def)
  qed
qed

lemma sorted_sort_by:
  "\<forall>x\<in>set xs. time x \<noteq> None \<Longrightarrow> sorted_wrt (newer_or_same time) (sort_by (newest_first time) xs)"
proof (induction xs)
  case Nil
  then show ?case by (simp add: sort_by_def)
next
  case (Cons x xs)
  have "sorted_wrt (newer_or_same time) (insert_by (newest_first time) x (sort_by (newest_first time) xs))"
    using Cons by (intro sorted_insert_by) (simp_all add: set_sort_by)
  then show ?case by (simp add: sort_by_def)
qed

lemma filter_insert_by_other:
  "\<not> P x \<Longrightarrow> filter P (insert_by cmp x ys) = filter P ys"
  by (induction ys) simp_all

lemma filter_insert_by_same_time:
  assumes "time x = Some t" "\<forall>y\<in>set ys. time y \<noteq> None"
  shows "filter (\<lambda>p. time p = Some t) (insert_by (newest_first time) x ys) =
         x # filter (\<lambda>p. time p = Some t) ys"
  using assms
proof (induction ys)
  case Nil
  then show ?case by simp
next
  case (Cons y ys)
  then obtain ty where ty: "time y = Some ty" by auto
  show ?case
  proof (cases "newest_first time x y \<le> 0")
    case True
    with Cons show ?thesis by simp
  next
    case False
    with ty Cons.prems have "ty \<noteq> t" by (auto simp: newest_first_def)
    with False ty Cons show ?thesis by simp
  qed
qed

lemma stable_sort_by:
  "\<forall>x\<in>set xs. time x \<noteq> None \<Longrightarrow>
   filter (\<lambda>p. time p = Some t) (sort_by (newest_first time) xs) = filter (\<lambda>p. time p = Some t) xs"
proof (induction xs)
  case Nil
  then show ?case by (simp add: sort_by_def)
next
  case (Cons x xs)
  let ?s = "sort_by (newest_first time) xs"
  have all: "\<forall>y\<in>set ?s. time y \<noteq> None" using Cons.prems by (simp add: set_sort_by)
  have step: "sort_by (newest_first time) (x # xs) = insert_by (newest_first time) x ?s"
    by (simp add: sort_by_def)
  show ?case
  proof (cases "time x = Some t")
    case True
    then show ?thesis using Cons all by (simp add: step filter_insert_by_same_time)
  next
    case False
    then show ?thesis using Cons by (simp add: step filter_insert_by_other)
  qed
qed

lemma map_insert_by:
  assumes "\<And>a b. cmp' (f a) (f b) = cmp a b"
  shows "map f (insert_by cmp x ys) = insert_by cmp' (f x) (map f ys)"
  by (induction ys) (simp_all add: assms)

lemma map_sort_by:
  assumes "\<And>a b. cmp' (f a) (f b) = cmp a b"
  shows "map f (sort_by cmp xs) = sort_by cmp' (map f xs)"
  by (induction xs) (simp_all add: sort_by_def map_insert_by [of cmp' f cmp, OF assms])

section \<open>The loop over the files\<close>

lemma set_set_add: "set (set_add x xs) = insert x (set xs)"
  by (auto simp: set_add_def)

lemma distinct_set_add: "distinct xs \<Longrightarrow> distinct (set_add x xs)"
  by (simp add: set_add_def)

lemma set_foldl_set_add: "set (foldl (\<lambda>acc t. set_add t acc) s ts) = set s \<union> set ts"
  by (induction ts arbitrary: s) (auto simp: set_set_add)

lemma distinct_foldl_set_add:
  "distinct s \<Longrightarrow> distinct (foldl (\<lambda>acc t. set_add t acc) s ts)"
  by (induction ts arbitrary: s) (simp_all add: distinct_set_add)

lemma scan_inv_process_file:
  "scan_inv st \<Longrightarrow> scan_inv (process_file parse clk rd st file)"
  by (auto simp: scan_inv_def process_file_def set_foldl_set_add distinct_foldl_set_add
      set_set_add distinct_set_add split: option.splits sum.splits)

lemma scan_inv_foldl:
  "scan_inv st \<Longrightarrow> scan_inv (foldl (process_file parse clk rd) st files)"
  by (induction files arbitrary: st) (simp_all add: scan_inv_process_file)

lemma scan_inv_process_files: "scan_inv (process_files parse clk rd files)"
  unfolding process_files_def by (rule scan_inv_foldl) (simp add: scan_inv_def)

lemma generatePostsIndex_Some:
  assumes "generatePostsIndex parse clk D fs = Some a"
  obtains st where "st = process_files parse clk (readFileSync fs)
              (sort (filter (\<lambda>file. endsWith file (str ''.html'')) (readdirSync fs)))"
    and "a = build_index D (clk (ticks st)) st"
  using assms by (auto simp: generatePostsIndex_def Let_def split: if_splits)

lemma posts_build_index:
  "posts (build_index D now st) = sort_by (newest_first (\<lambda>p. D (date p))) (scanned st)"
  by (simp add: build_index_def Let_def)

lemma tags_index_build_index:
  "tags_index (build_index D now st) =
     map (\<lambda>tag. \<lparr> tag_name = tag,
                  tag_count = length (filter (\<lambda>p. tag \<in> set (tags p)) (posts (build_index D now st))) \<rparr>)
         (sort (seen_tags st))"
  by (simp add: build_index_def Let_def)

section \<open>Clock readings\<close>

lemma extract_clock:
  assumes "date_part n1 = date_part n2"
  shows "map_sum id without_modified (extractMetadata parse n1 m1 h f) =
         map_sum id without_modified (extractMetadata parse n2 m2 h f)"
  using assms
  by (auto simp: extractMetadata_def meta_date_def Let_def without_modified_def
      split: option.splits sum.splits)

lemma without_modified_fields:
  "category (without_modified p) = category p" "tags (without_modified p) = tags p"
  "date (without_modified p) = date p" "wordCount (without_modified p) = wordCount p"
  "readTime (without_modified p) = readTime p"
  by (simp_all add: without_modified_def)

lemma without_modified_eqD:
  assumes "without_modified p = without_modified q"
  shows "category p = category q" "tags p = tags q"
  using without_modified_fields(1) [of p] without_modified_fields(1) [of q]
    without_modified_fields(2) [of p] without_modified_fields(2) [of q] assms
  by simp_all

lemma same_scan_process_file:
  assumes "same_scan s t" and "\<And>k. date_part (c1 k) = date_part (c2 k)"
  shows "same_scan (process_file parse c1 rd s file) (process_file parse c2 rd t file)"
proof (cases "rd file")
  case None
  with assms show ?thesis by (simp add: process_file_def)
next
  case (Some h)
  from assms(1) have tk: "ticks s = ticks t" by (simp add: same_scan_def)
  let ?r1 = "extractMetadata parse (c1 (ticks s)) (c1 (Suc (ticks s))) h file"
  let ?r2 = "extractMetadata parse (c2 (ticks t)) (c2 (Suc (ticks t))) h file"
  have eq: "map_sum id without_modified ?r1 = map_sum id without_modified ?r2"
    using assms(2) [of "ticks s"] unfolding tk by (rule extract_clock)
  show ?thesis
  proof (cases ?r1)
    case (Inl e)
    with eq obtain e' where "?r2 = Inl e'" by (cases ?r2) auto
    with Inl Some assms(1) show ?thesis by (simp add: process_file_def same_scan_def)
  next
    case (Inr p)
    with eq obtain q where q: "?r2 = Inr q" "without_modified p = without_modified q"
      by (cases ?r2) auto
    from q(2) have "category p = category q" "tags p = tags q"
      by (rule without_modified_eqD)+
    with Inr q Some assms(1) show ?thesis by (simp add: process_file_def same_scan_def)
  qed
qed

lemma same_scan_foldl:
  assumes "\<And>k. date_part (c1 k) = date_part (c2 k)"
  shows "same_scan s t \<Longrightarrow>
         same_scan (foldl (process_file parse c1 rd) s files) (foldl (process_file parse c2 rd) t files)"
  by (induction files arbitrary: s t) (simp_all add: same_scan_process_file assms)

lemma same_scan_process_files:
  assumes "\<And>k. date_part (c1 k) = date_part (c2 k)"
  shows "same_scan (process_files parse c1 rd files) (process_files parse c2 rd files)"
  unfolding process_files_def by (rule same_scan_foldl [OF assms]) (simp add: same_scan_def)

lemma same_fields:
  assumes "map without_modified xs = map without_modified ys"
  shows "map category xs = map category ys" "map tags xs = map tags ys"
    "map date xs = map date ys" "map wordCount xs = map wordCount ys"
    "map readTime xs = map readTime ys"
proof -
  have "map (category \<circ> without_modified) xs = map (category \<circ> without_modified) ys"
       "map (tags \<circ> without_modified) xs = map (tags \<circ> without_modified) ys"
       "map (date \<circ> without_modified) xs = map (date \<circ> without_modified) ys"
       "map (wordCount \<circ> without_modified) xs = map (wordCount \<circ> without_modified) ys"
       "map (readTime \<circ> without_modified) xs = map (readTime \<circ> without_modified) ys"
    using assms by (metis map_map)+
  then show "map category xs = map category ys" "map tags xs = map tags ys"
    "map date xs = map date ys" "map wordCount xs = map wordCount ys"
    "map readTime xs = map readTime ys"
    by (simp_all add: comp_def without_modified_fields)
qed

lemma count_by_field:
  assumes "map f xs = map f ys"
  shows "length (filter (\<lambda>p. P (f p)) xs) = length (filter (\<lambda>p. P (f p)) ys)"
proof -
  have "length (filter (\<lambda>p. P (f p)) zs) = length (filter P (map f zs))" for zs
    by (induction zs) simp_all
  with assms show ?thesis by metis
qed

lemma average_minutes_readTime:
  assumes "map readTime xs = map readTime ys"
  shows "average_minutes xs = average_minutes ys"
proof -
  have l: "length xs = length ys" using assms by (metis length_map)
  then have e: "xs = [] \<longleftrightarrow> ys = []" by auto
  have m: "map (\<lambda>p. parseInt (readTime p)) xs = map (\<lambda>p. parseInt (readTime p)) ys"
    using assms by (metis (no_types, lifting) map_map comp_def map_eq_conv)
  show ?thesis
    unfolding average_minutes_def Let_def m l e ..
qed

lemma build_index_same:
  assumes "same_scan s t"
  shows "without_timestamps (build_index D g1 s) = without_timestamps (build_index D g2 t)"
proof -
  let ?cmp = "newest_first (\<lambda>p. D (date p))"
  let ?xs = "sort_by ?cmp (scanned s)" and ?ys = "sort_by ?cmp (scanned t)"
  have c: "?cmp (without_modified a) (without_modified b) = ?cmp a b" for a b
    by (simp add: newest_first_def without_modified_fields)
  have "map without_modified ?xs = sort_by ?cmp (map without_modified (scanned s))"
    by (rule map_sort_by) (rule c)
  also have "\<dots> = sort_by ?cmp (map without_modified (scanned t))"
    using assms by (simp add: same_scan_def)
  also have "\<dots> = map without_modified ?ys"
    by (rule map_sort_by [symmetric]) (rule c)
  finally have w: "map without_modified ?xs = map without_modified ?ys" .
  note f = same_fields [OF w]
  have len: "length ?xs = length ?ys" using w by (metis length_map)
  then have e: "?xs = [] \<longleftrightarrow> ?ys = []" by auto
  have cat: "length (filter (\<lambda>p. category p = c) ?xs) = length (filter (\<lambda>p. category p = c) ?ys)" for c
    using f(1) by (rule count_by_field)
  have tg: "length (filter (\<lambda>p. x \<in> set (tags p)) ?xs) = length (filter (\<lambda>p. x \<in> set (tags p)) ?ys)" for x
    using f(2) by (rule count_by_field [where P = "\<lambda>ts. x \<in> set ts"])
  have words: "sum_list (map wordCount ?xs) = sum_list (map wordCount ?ys)" using f(4) by simp
  have avg: "average_minutes ?xs = average_minutes ?ys" using f(5) by (rule average_minutes_readTime)
  have first: "?xs \<noteq> [] \<Longrightarrow> date (hd ?xs) = date (hd ?ys)"
    using f(3) e by (metis hd_map)
  have final: "?xs \<noteq> [] \<Longrightarrow> date (last ?xs) = date (last ?ys)"
    using f(3) e by (metis last_map)
  have sets: "seen_categories s = seen_categories t" "seen_tags s = seen_tags t"
    using assms by (simp_all add: same_scan_def)
  show ?thesis
    unfolding build_index_def without_timestamps_def Let_def
    using w len e cat tg words avg first final sets by simp
qed

section \<open>The order of the posts\<close>

lemma files_bad_date:
  "sort (filter (\<lambda>file. endsWith file (str ''.html'')) (readdirSync bad_date_posts)) =
     [str ''a.html'', str ''b.html'', str ''c.html'']"
  by (simp add: bad_date_posts_def string_defs)

lemma extracted_bad_date:
  "map date (extracted parse_dated clk bad_date_posts) =
     [str ''2025-01-01'', str ''bad'', str ''2025-12-31'']"
proof -
  have r: "readFileSync bad_date_posts = read_dated" by (simp add: bad_date_posts_def)
  have f: "read_dated (str ''a.html'') = Some (str ''2025-01-01'')"
    "read_dated (str ''b.html'') = Some (str ''bad'')"
    "read_dated (str ''c.html'') = Some (str ''2025-12-31'')"
    by (simp_all add: read_dated_def str_def)
  have e: "map_sum id date (extractMetadata parse_dated n n' (str ''2025-01-01'') fl) = Inr (str ''2025-01-01'')"
    "map_sum id date (extractMetadata parse_dated n n' (str ''bad'') fl) = Inr (str ''bad'')"
    "map_sum id date (extractMetadata parse_dated n n' (str ''2025-12-31'') fl) = Inr (str ''2025-12-31'')"
    for n n' fl
    by (simp_all add: extract_defs dom_defs string_defs parse_dated_def)
  have d: "map date (scanned (process_file parse_dated clk read_dated st fl)) =
           map date (scanned st) @
             (case read_dated fl of None \<Rightarrow> []
              | Some h \<Rightarrow> (case map_sum id date (extractMetadata parse_dated (clk (ticks st)) (clk (Suc (ticks st))) h fl) of
                   Inl e \<Rightarrow> [] | Inr x \<Rightarrow> [x]))" for st fl
    by (simp add: process_file_def split: option.splits sum.splits)
  show ?thesis
    by (simp add: extracted_def files_bad_date r process_files_def d f e)
qed

lemma bad_date_times:
  "iso_date_only (str ''2025-01-01'') = Some 1735689600000"
  "iso_date_only (str ''bad'') = None"
  "iso_date_only (str ''2025-12-31'') = Some 1767139200000"
  by (simp_all add: iso_date_only_def date_pattern_here_def isDigit_def str_def digits_value_def
      days_in_month_def days_from_civil_def Let_def)

text \<open>
  Claim C5, as stated: the posts of the artifact are in descending order of date. The
  comparator subtracts \<open>new Date(a.date)\<close> from \<open>new Date(b.date)\<close>; for a date that does not
  parse the difference is \<open>NaN\<close>, which the sort reads as "equal". With the dates
  2025-01-01, \<open>bad\<close>, 2025-12-31 every comparison the sort makes involves \<open>bad\<close>, nothing
  is moved, and January stays before December.
\<close>

theorem unparseable_date_breaks_order:
  "map_option (map date \<circ> posts)
     (generatePostsIndex parse_dated morning iso_date_only bad_date_posts) =
     Some [str ''2025-01-01'', str ''bad'', str ''2025-12-31''] \<and>
   map iso_date_only [str ''2025-01-01'', str ''bad'', str ''2025-12-31''] =
     [Some 1735689600000, None, Some 1767139200000]"
proof -
  have c: "newest_first iso_date_only (date a) (date b) = newest_first (\<lambda>p. iso_date_only (date p)) a b"
    for a b :: post
    by (simp add: newest_first_def)
  have "map date (sort_by (newest_first (\<lambda>p. iso_date_only (date p)))
                    (extracted parse_dated morning bad_date_posts)) =
        sort_by (newest_first iso_date_only) (map date (extracted parse_dated morning bad_date_posts))"
    by (rule map_sort_by) (rule c)
  also have "\<dots> = [str ''2025-01-01'', str ''bad'', str ''2025-12-31'']"
    by (simp add: extracted_bad_date sort_by_def newest_first_def bad_date_times)
  finally have "map date (sort_by (newest_first (\<lambda>p. iso_date_only (date p)))
                    (extracted parse_dated morning bad_date_posts)) =
                [str ''2025-01-01'', str ''bad'', str ''2025-12-31'']" .
  moreover have "existsSync bad_date_posts" by (simp add: bad_date_posts_def)
  ultimately show ?thesis
    by (simp add: generatePostsIndex_def files_bad_date Let_def posts_build_index extracted_def
        bad_date_times)
qed

text \<open>
  Claim C5, amended. In a run in which every extracted date is one the engine's parser
  accepts, the posts of the artifact are the extracted records sorted by date, newest
  first, and records of equal date keep the order in which the files were met: the
  posts are in non-increasing order of time, they are the extracted records (as a
  multiset), and for every time value the records of that time appear in their
  extraction order.
\<close>

theorem posts_sorted_newest_first:
  assumes "generatePostsIndex parse clk D fs = Some a"
    and "\<forall>p\<in>set (posts a). D (date p) \<noteq> None"
  shows "sorted_wrt (newer_or_same (\<lambda>p. D (date p))) (posts a) \<and>
         mset (posts a) = mset (extracted parse clk fs) \<and>
         (\<forall>t. filter (\<lambda>p. D (date p) = Some t) (posts a) =
              filter (\<lambda>p. D (date p) = Some t) (extracted parse clk fs))"
proof -
  from assms(1) obtain st where st: "st = process_files parse clk (readFileSync fs)
              (sort (filter (\<lambda>file. endsWith file (str ''.html'')) (readdirSync fs)))"
    and a: "a = build_index D (clk (ticks st)) st"
    by (rule generatePostsIndex_Some)
  have ex: "extracted parse clk fs = scanned st" by (simp add: extracted_def st)
  have p: "posts a = sort_by (newest_first (\<lambda>p. D (date p))) (scanned st)"
    unfolding a by (rule posts_build_index)
  have valid: "\<forall>p\<in>set (scanned st). D (date p) \<noteq> None"
    using assms(2) by (simp add: p set_sort_by)
  have "sorted_wrt (newer_or_same (\<lambda>p. D (date p))) (posts a)"
    unfolding p using valid by (rule sorted_sort_by)
  moreover have "mset (posts a) = mset (extracted parse clk fs)"
    by (simp add: p ex mset_sort_by)
  moreover have "filter (\<lambda>p. D (date p) = Some t) (posts a) =
              filter (\<lambda>p. D (date p) = Some t) (extracted parse clk fs)" for t
    unfolding p ex using valid by (rule stable_sort_by)
  ultimately show ?thesis by blast
qed

text \<open>
  The run over the three example posts, met in the order 2025-09-20, 2025-09-23,
  2025-09-18, yields the order 2025-09-23, 2025-09-20, 2025-09-18.
\<close>

theorem posts_sorted_newest_first_witness:
  "\<exists>a. generatePostsIndex parse_posts morning iso_date_only three_posts = Some a \<and>
       map date (extracted parse_posts morning three_posts) =
         [str ''2025-09-20'', str ''2025-09-23'', str ''2025-09-18''] \<and>
       map date (posts a) = [str ''2025-09-23'', str ''2025-09-20'', str ''2025-09-18''] \<and>
       sorted_wrt (newer_or_same (\<lambda>p. iso_date_only (date p))) (posts a) \<and>
       mset (posts a) = mset (extracted parse_posts morning three_posts)"
proof -
  from three_posts_artifact [of morning] obtain a where
    g: "generatePostsIndex parse_posts morning iso_date_only three_posts = Some a" and
    p: "posts a = [post_of ''b'' ''two'' ''2025-09-23'' [''X'', ''Y''] (morning 3),
                  post_of ''a'' ''one'' ''2025-09-20'' [''X''] (morning 1),
                  post_of ''c'' ''three'' ''2025-09-18'' [''W'', ''W''] (morning 5)]"
    by blast
  have v: "\<forall>p\<in>set (posts a). iso_date_only (date p) \<noteq> None"
    by (simp add: p post_of_fields iso_dates)
  from posts_sorted_newest_first [OF g v] g show ?thesis
    by (simp add: p post_of_fields extracted_three)
qed

text \<open>The runtime's \<open>discoverPosts\<close> sorts with the same comparator.\<close>

lemma discoverPosts_sorted:
  assumes "discoverPosts env = Inr ps" and "\<forall>p\<in>set ps. post_time env p \<noteq> None"
  shows "sorted_wrt (newer_or_same (post_time env)) ps \<and> mset ps = mset (discovered env)"
proof -
  have p: "ps = sort_by (newest_first (post_time env)) (discovered env)"
    using assms(1) by (simp add: discoverPosts_def)
  have "\<forall>p\<in>set (discovered env). post_time env p \<noteq> None"
    using assms(2) by (simp add: p set_sort_by)
  then show ?thesis unfolding p by (simp add: sorted_sort_by mset_sort_by)
qed

section \<open>The tag list of the artifact\<close>

text \<open>
  Claim C10. In the artifact each tag's count is the number of posts whose tag list
  contains the tag, counted by position in \<open>posts\<close>: a post contributes one, however often
  the tag is repeated in its own list.
\<close>

theorem tag_count_is_number_of_posts:
  assumes "generatePostsIndex parse clk D fs = Some a"
  shows "\<forall>e\<in>set (tags_index a).
           tag_count e = card {i. i < length (posts a) \<and> tag_name e \<in> set (tags (posts a ! i))}"
proof -
  from assms obtain st where a: "a = build_index D (clk (ticks st)) st"
    by (rule generatePostsIndex_Some)
  show ?thesis
    unfolding a tags_index_build_index
    by (auto simp: length_filter_conv_card)
qed

text \<open>
  In the example run the post \<open>c.html\<close> carries the tag \<open>W\<close> twice, and \<open>W\<close> is counted once.
\<close>

theorem tag_count_is_number_of_posts_witness:
  "\<exists>a. generatePostsIndex parse_posts morning iso_date_only three_posts = Some a \<and>
       \<lparr> tag_name = str ''W'', tag_count = 1 \<rparr> \<in> set (tags_index a) \<and>
       map tags (posts a) = [[str ''X'', str ''Y''], [str ''X''], [str ''W'', str ''W'']] \<and>
       card {i. i < length (posts a) \<and> str ''W'' \<in> set (tags (posts a ! i))} = 1"
proof -
  from three_posts_artifact [of morning] obtain a where
    g: "generatePostsIndex parse_posts morning iso_date_only three_posts = Some a" and
    p: "posts a = [post_of ''b'' ''two'' ''2025-09-23'' [''X'', ''Y''] (morning 3),
                  post_of ''a'' ''one'' ''2025-09-20'' [''X''] (morning 1),
                  post_of ''c'' ''three'' ''2025-09-18'' [''W'', ''W''] (morning 5)]" and
    t: "tags_index a = [\<lparr> tag_name = str ''W'', tag_count = 1 \<rparr>, \<lparr> tag_name = str ''X'', tag_count = 2 \<rparr>,
                       \<lparr> tag_name = str ''Y'', tag_count = 1 \<rparr>]"
    by blast
  have m: "\<lparr> tag_name = str ''W'', tag_count = 1 \<rparr> \<in> set (tags_index a)" by (simp add: t)
  from tag_count_is_number_of_posts [OF g] m
  have "tag_count \<lparr> tag_name = str ''W'', tag_count = 1 \<rparr> =
        card {i. i < length (posts a) \<and> tag_name \<lparr> tag_name = str ''W'', tag_count = 1 \<rparr> \<in> set (tags (posts a ! i))}"
    by (rule bspec)
  then have "card {i. i < length (posts a) \<and> str ''W'' \<in> set (tags (posts a ! i))} = 1" by simp
  moreover have "map tags (posts a) = [[str ''X'', str ''Y''], [str ''X''], [str ''W'', str ''W'']]"
    by (simp add: p post_of_fields)
  ultimately show ?thesis using g m by (intro exI [of _ a] conjI)
qed

text \<open>
  Claim C3, as stated: the tag list is ordered by descending count and cut to ten
  entries. The indexer sorts the tag names with the default \<open>sort()\<close> instead; in the
  example run the list is \<open>W, X, Y\<close> with counts \<open>1, 2, 1\<close>, which is not descending.
\<close>

theorem tags_index_not_by_count:
  "map_option (map tag_name \<circ> tags_index)
     (generatePostsIndex parse_posts morning iso_date_only three_posts) =
     Some [str ''W'', str ''X'', str ''Y''] \<and>
   map_option (map tag_count \<circ> tags_index)
     (generatePostsIndex parse_posts morning iso_date_only three_posts) = Some [1, 2, 1]"
  using tags_three(1,2) [of morning] by simp

text \<open>
  Claim C3, amended. The tag list of the artifact holds every tag of every post exactly
  once, in ascending order of the names (by code units), each with the number of posts
  that carry it; nothing is cut off.
\<close>

theorem tags_index_sorted_by_name:
  assumes "generatePostsIndex parse clk D fs = Some a"
  shows "sorted (map tag_name (tags_index a)) \<and>
         distinct (map tag_name (tags_index a)) \<and>
         set (map tag_name (tags_index a)) = \<Union> (set ` tags ` set (posts a)) \<and>
         map tag_count (tags_index a) =
           map (\<lambda>t. length (filter (\<lambda>p. t \<in> set (tags p)) (posts a))) (map tag_name (tags_index a))"
proof -
  from assms obtain st where st: "st = process_files parse clk (readFileSync fs)
              (sort (filter (\<lambda>file. endsWith file (str ''.html'')) (readdirSync fs)))"
    and a: "a = build_index D (clk (ticks st)) st"
    by (rule generatePostsIndex_Some)
  have inv: "scan_inv st" unfolding st by (rule scan_inv_process_files)
  have names: "map tag_name (tags_index a) = sort (seen_tags st)"
    unfolding a tags_index_build_index by (simp add: comp_def)
  have "set (posts a) = set (scanned st)"
    unfolding a posts_build_index by (rule set_sort_by)
  with inv have "set (sort (seen_tags st)) = \<Union> (set ` tags ` set (posts a))"
    by (simp add: scan_inv_def)
  moreover have "distinct (sort (seen_tags st))" using inv by (simp add: scan_inv_def)
  moreover have "map tag_count (tags_index a) =
           map (\<lambda>t. length (filter (\<lambda>p. t \<in> set (tags p)) (posts a))) (map tag_name (tags_index a))"
    unfolding a tags_index_build_index by (simp add: comp_def)
  ultimately show ?thesis by (simp add: names)
qed

text \<open>
  For two documents tagged \<open>X, Y\<close> and \<open>X\<close> the list is \<open>X\<close> with count 2, then \<open>Y\<close> with
  count 1.
\<close>

theorem tags_index_sorted_by_name_witness:
  "\<exists>a. generatePostsIndex parse_posts morning iso_date_only two_posts = Some a \<and>
       map tag_name (tags_index a) = [str ''X'', str ''Y''] \<and>
       map tag_count (tags_index a) = [2, 1] \<and>
       sorted (map tag_name (tags_index a)) \<and>
       distinct (map tag_name (tags_index a)) \<and>
       set (map tag_name (tags_index a)) = \<Union> (set ` tags ` set (posts a))"
proof -
  from two_posts_artifact [of morning] obtain a where
    g: "generatePostsIndex parse_posts morning iso_date_only two_posts = Some a" and
    t: "tags_index a = [\<lparr> tag_name = str ''X'', tag_count = 2 \<rparr>, \<lparr> tag_name = str ''Y'', tag_count = 1 \<rparr>]"
    by blast
  from tags_index_sorted_by_name [OF g] have
    "sorted (map tag_name (tags_index a))" "distinct (map tag_name (tags_index a))"
    "set (map tag_name (tags_index a)) = \<Union> (set ` tags ` set (posts a))"
    by blast+
  moreover have "map tag_name (tags_index a) = [str ''X'', str ''Y'']" "map tag_count (tags_index a) = [2, 1]"
    by (simp_all add: t)
  ultimately show ?thesis using g by (intro exI [of _ a] conjI)
qed

section \<open>Running the indexer twice\<close>

text \<open>
  Claim C4, as stated: two runs over unchanged documents differ only in \<open>generated\<close>.
  Every post also records the time of its extraction in \<open>lastModified\<close>; a run in the
  morning and a run in the evening of the same day produce different \<open>lastModified\<close>
  values.
\<close>

theorem rerun_changes_lastModified:
  "map_option (map lastModified \<circ> posts)
     (generatePostsIndex parse_posts morning iso_date_only three_posts) =
     Some [str ''2025-09-24T08:00:00.000Z'', str ''2025-09-24T08:00:00.000Z'', str ''2025-09-24T08:00:00.000Z''] \<and>
   map_option (map lastModified \<circ> posts)
     (generatePostsIndex parse_posts evening iso_date_only three_posts) =
     Some [str ''2025-09-24T20:00:00.000Z'', str ''2025-09-24T20:00:00.000Z'', str ''2025-09-24T20:00:00.000Z''] \<and>
   map_option (map lastModified \<circ> posts)
     (generatePostsIndex parse_posts morning iso_date_only three_posts) \<noteq>
   map_option (map lastModified \<circ> posts)
     (generatePostsIndex parse_posts evening iso_date_only three_posts)"
proof -
  have m: "map_option (map lastModified \<circ> posts)
     (generatePostsIndex parse_posts morning iso_date_only three_posts) =
     Some [str ''2025-09-24T08:00:00.000Z'', str ''2025-09-24T08:00:00.000Z'', str ''2025-09-24T08:00:00.000Z'']"
    unfolding tags_three(4) by (simp add: morning_def)
  have e: "map_option (map lastModified \<circ> posts)
     (generatePostsIndex parse_posts evening iso_date_only three_posts) =
     Some [str ''2025-09-24T20:00:00.000Z'', str ''2025-09-24T20:00:00.000Z'', str ''2025-09-24T20:00:00.000Z'']"
    unfolding tags_three(4) by (simp add: evening_def)
  have "str ''2025-09-24T08:00:00.000Z'' \<noteq> str ''2025-09-24T20:00:00.000Z''"
    by (simp add: str_def)
  then show ?thesis unfolding m e by simp
qed

text \<open>
  Claim C4, amended. Two runs over the same documents whose clock readings fall on the
  same calendar day produce artifacts that are identical in every field except the
  top-level \<open>generated\<close> and the \<open>lastModified\<close> of each post.
\<close>

theorem rerun_differs_only_in_timestamps:
  assumes "\<forall>k. date_part (c1 k) = date_part (c2 k)"
  shows "map_option without_timestamps (generatePostsIndex parse c1 D fs) =
         map_option without_timestamps (generatePostsIndex parse c2 D fs)"
proof -
  have s: "same_scan (process_files parse c1 rd files) (process_files parse c2 rd files)" for rd files
    using assms by (intro same_scan_process_files) simp
  show ?thesis
    unfolding generatePostsIndex_def Let_def
    by (simp add: build_index_same [OF s])
qed

theorem rerun_differs_only_in_timestamps_witness:
  "map_option without_timestamps (generatePostsIndex parse_posts morning iso_date_only three_posts) =
   map_option without_timestamps (generatePostsIndex parse_posts evening iso_date_only three_posts) \<and>
   date_part (morning 0) = str ''2025-09-24'' \<and> date_part (evening 0) = str ''2025-09-24''"
proof -
  have d: "date_part (morning k) = str ''2025-09-24''" "date_part (evening k) = str ''2025-09-24''" for k
    by (simp_all add: morning_def evening_def date_part_def str_def)
  then have "\<forall>k. date_part (morning k) = date_part (evening k)" by simp
  from rerun_differs_only_in_timestamps [OF this] d show ?thesis by simp
qed

section \<open>When the builders return a record\<close>

lemma meta_date_Inr:
  "(\<exists>d. meta_date now doc s = Inr d) \<longleftrightarrow> has_content (querySelector doc date_metas)"
  by (auto simp: meta_date_def date_metas_def Let_def split: option.splits)

lemma meta_date_error: "meta_date now doc s = Inl e \<Longrightarrow> e = TypeError"
  by (auto simp: meta_date_def Let_def split: option.splits)

lemma meta_tags_Inr:
  "(\<exists>ts. meta_tags doc = Inr ts) \<longleftrightarrow> has_content (querySelector doc (meta_name ''keywords''))"
  by (auto simp: meta_tags_def Let_def split: option.splits)

lemma meta_tags_error: "meta_tags doc = Inl e \<Longrightarrow> e = TypeError"
  by (auto simp: meta_tags_def Let_def split: option.splits if_splits)

lemma extractTags_Inr:
  "(\<exists>ts. extractTags doc = Inr ts) \<longleftrightarrow> has_content (querySelector doc (meta_name ''keywords''))"
  by (auto simp: extractTags_def Let_def split: option.splits)

lemma extractMetadata_Inr:
  "(\<exists>r. extractMetadata parse now now' html file = Inr r) \<longleftrightarrow>
   has_content (querySelector (parse html) date_metas) \<and>
   has_content (querySelector (parse html) (meta_name ''keywords''))"
  unfolding meta_date_Inr [symmetric, of _ now "basename file (str ''.html'')"] meta_tags_Inr [symmetric]
  by (auto simp: extractMetadata_def Let_def split: sum.splits)

lemma extractMetadata_error:
  "extractMetadata parse now now' html file = Inl e \<Longrightarrow> e = TypeError"
  by (auto simp: extractMetadata_def Let_def split: sum.splits dest: meta_date_error meta_tags_error)

lemma parsePostHTML_Inr:
  "(\<exists>r. parsePostHTML parse now html s = Inr r) \<longleftrightarrow>
   has_content (querySelector (parse html) (meta_name ''keywords''))"
  unfolding extractTags_Inr [symmetric]
  by (auto simp: parsePostHTML_def Let_def split: sum.splits)

lemma extractMetadata_fields:
  assumes "extractMetadata parse now now' html file = Inr r"
  shows "category r = meta_category (parse html)" "author r = meta_author (parse html)"
    "excerpt r = or_default (meta_excerpt (parse html)) (str ''No excerpt available.'')"
    "meta_date now (parse html) (basename file (str ''.html'')) = Inr (date r)"
    "meta_tags (parse html) = Inr (tags r)"
  using assms by (auto simp: extractMetadata_def Let_def split: sum.splits)

lemma parsePostHTML_fields:
  assumes "parsePostHTML parse now html s = Inr r"
  shows "r_excerpt r = extractExcerpt (parse html)" "r_date r = extractDate now (parse html) s"
    "r_category r = extractCategory (parse html)" "extractTags (parse html) = Inr (r_tags r)"
  using assms by (auto simp: parsePostHTML_def Let_def split: sum.splits)

lemma meta_category_defined:
  "has_content (querySelector doc (meta_name ''category'')) \<Longrightarrow> meta_category doc \<noteq> None"
  by (auto simp: meta_category_def split: option.splits)

lemma meta_author_defined:
  "has_content (querySelector doc (meta_name ''author'')) \<Longrightarrow> meta_author doc \<noteq> None"
  by (auto simp: meta_author_def split: option.splits)

lemma extractExcerpt_defined:
  "has_content (querySelector doc (meta_name ''description'')) \<Longrightarrow> extractExcerpt doc \<noteq> None"
  by (auto simp: extractExcerpt_def Let_def split: option.splits)

lemma extractDate_defined:
  "has_content (runtime_date_meta doc) \<Longrightarrow> extractDate now doc s \<noteq> None"
  by (auto simp: extractDate_def runtime_date_meta_def split: option.splits)

lemma extractCategory_defined:
  "has_content (querySelector doc (meta_name ''category'')) \<Longrightarrow> extractCategory doc \<noteq> None"
  by (auto simp: extractCategory_def split: option.splits)

text \<open>
  Claim C1, as stated: the builders never throw, and a field whose extraction fails
  falls back to its default. For a page with \<open><meta name="keywords">\<close> and no \<open>content\<close>
  attribute both builders throw a \<open>TypeError\<close>: neither has a handler of its own.
\<close>

theorem missing_content_throws:
  "extractMetadata (parse_as (page [meta_without_content ''keywords''] [])) (morning 0) (morning 1)
     [] (str ''a.html'') = Inl TypeError \<and>
   parsePostHTML (parse_as (page [meta_without_content ''keywords''] [])) (morning 0)
     [] (str ''a'') = Inl TypeError"
  by (simp add: extract_defs runtime_defs dom_defs string_defs parse_as_def morning_def
      show_nat.simps)

text \<open>
  Claim C1, amended. When every \<open>meta\<close> element a builder matches carries a \<open>content\<close>
  attribute, the builder returns a record and none of its fields is \<open>null\<close>. The indexer's
  builder returns a record exactly when the matched date and keywords elements carry the
  attribute, the runtime's exactly when the matched keywords element does; otherwise the
  builder throws and no default is substituted.
\<close>

theorem builders_return_when_content_present:
  "(list_all has_content (offline_metas (parse html)) \<longrightarrow>
      (\<exists>r. extractMetadata parse now now' html file = Inr r \<and>
           category r \<noteq> None \<and> author r \<noteq> None)) \<and>
   (list_all has_content (runtime_metas (parse html)) \<longrightarrow>
      (\<exists>r. parsePostHTML parse now html slug' = Inr r \<and>
           r_excerpt r \<noteq> None \<and> r_date r \<noteq> None \<and> r_category r \<noteq> None)) \<and>
   ((\<exists>r. extractMetadata parse now now' html file = Inr r) \<longleftrightarrow>
      has_content (querySelector (parse html) date_metas) \<and>
      has_content (querySelector (parse html) (meta_name ''keywords''))) \<and>
   ((\<exists>r. parsePostHTML parse now html slug' = Inr r) \<longleftrightarrow>
      has_content (querySelector (parse html) (meta_name ''keywords'')))"
proof (intro conjI impI)
  assume a: "list_all has_content (offline_metas (parse html))"
  then have "\<exists>r. extractMetadata parse now now' html file = Inr r"
    by (simp add: extractMetadata_Inr offline_metas_def)
  then obtain r where r: "extractMetadata parse now now' html file = Inr r" ..
  from a have "category r \<noteq> None" "author r \<noteq> None"
    by (simp_all add: extractMetadata_fields [OF r] offline_metas_def meta_category_defined
        meta_author_defined)
  with r show "\<exists>r. extractMetadata parse now now' html file = Inr r \<and>
           category r \<noteq> None \<and> author r \<noteq> None" by blast
next
  assume a: "list_all has_content (runtime_metas (parse html))"
  then have "\<exists>r. parsePostHTML parse now html slug' = Inr r"
    by (simp add: parsePostHTML_Inr runtime_metas_def)
  then obtain r where r: "parsePostHTML parse now html slug' = Inr r" ..
  from a have "r_excerpt r \<noteq> None" "r_date r \<noteq> None" "r_category r \<noteq> None"
    by (simp_all add: parsePostHTML_fields [OF r] runtime_metas_def extractExcerpt_defined
        extractDate_defined extractCategory_defined)
  with r show "\<exists>r. parsePostHTML parse now html slug' = Inr r \<and>
           r_excerpt r \<noteq> None \<and> r_date r \<noteq> None \<and> r_category r \<noteq> None" by blast
next
  show "(\<exists>r. extractMetadata parse now now' html file = Inr r) \<longleftrightarrow>
      has_content (querySelector (parse html) date_metas) \<and>
      has_content (querySelector (parse html) (meta_name ''keywords''))"
    by (rule extractMetadata_Inr)
next
  show "(\<exists>r. parsePostHTML parse now html slug' = Inr r) \<longleftrightarrow>
      has_content (querySelector (parse html) (meta_name ''keywords''))"
    by (rule parsePostHTML_Inr)
qed

lemma metas_doc_a:
  "list_all has_content (offline_metas doc_a)" "list_all has_content (runtime_metas doc_a)"
  by (simp_all add: offline_metas_def runtime_metas_def runtime_date_meta_def date_metas_def
      doc_a_def dom_defs string_defs)

theorem builders_return_when_content_present_witness:
  "(\<exists>r. extractMetadata parse_posts (morning 0) (morning 1) (str ''A'') (str ''a.html'') = Inr r \<and>
        category r \<noteq> None \<and> author r \<noteq> None) \<and>
   (\<exists>r. parsePostHTML parse_posts (morning 0) (str ''A'') (str ''a'') = Inr r \<and>
        r_excerpt r \<noteq> None \<and> r_date r \<noteq> None \<and> r_category r \<noteq> None)"
proof -
  have p: "parse_posts (str ''A'') = doc_a" by (simp add: parse_posts_def)
  show ?thesis
    using builders_return_when_content_present
      [of parse_posts "str ''A''" "morning 0" "morning 1" "str ''a.html''" "str ''a''"]
    by (simp add: p metas_doc_a)
qed

section \<open>The excerpt\<close>

lemma length_dots: "length (str ''...'') = 3"
  by (simp add: str_def)

lemma dots_nonempty: "str ''...'' \<noteq> []"
  by (simp add: str_def)

lemma meta_excerpt_paragraph:
  assumes "querySelector doc (meta_name ''description'') = None"
    and "first_paragraph_offline doc = Some el"
  shows "meta_excerpt doc =
         Some (if 200 < length (trim (textContent el)) then take 200 (trim (textContent el)) @ str ''...''
               else trim (textContent el))"
  using assms by (simp add: meta_excerpt_def first_paragraph_offline_def Let_def)

lemma extractExcerpt_paragraph:
  assumes "querySelector doc (meta_name ''description'') = None"
    and "first_paragraph_runtime doc = Some el"
  shows "extractExcerpt doc =
         Some (if 200 < length (trim (textContent el)) then take 200 (trim (textContent el)) @ str ''...''
               else trim (textContent el))"
  using assms by (simp add: extractExcerpt_def first_paragraph_runtime_def Let_def)

text \<open>
  Claim C6, as stated: a first paragraph of at most 200 characters is kept verbatim. A
  first paragraph without text, here one that holds only an image, has the empty string
  as its text, and the indexer replaces it by \<open>No excerpt available.\<close>
\<close>

theorem empty_paragraph_not_verbatim:
  "first_paragraph_offline (page [] [image_para]) = Some image_para \<and>
   querySelector (page [] [image_para]) (meta_name ''description'') = None \<and>
   trim (textContent image_para) = [] \<and>
   map_sum id excerpt
     (extractMetadata (parse_as (page [] [image_para])) (morning 0) (morning 1) []
        (str ''a.html'')) = Inr (str ''No excerpt available.'')"
  by (simp add: extract_defs dom_defs string_defs parse_as_def morning_def show_nat.simps
      image_para_def first_paragraph_offline_def)

text \<open>
  Claim C6, amended. For a document without a description \<open>meta\<close> element whose first
  paragraph has the trimmed text \<open>t\<close>: if \<open>t\<close> has more than 200 characters the excerpt is
  its first 200 characters followed by \<open>...\<close>, 203 characters in all; if \<open>t\<close> has between 1
  and 200 characters the excerpt is \<open>t\<close>; if \<open>t\<close> is empty the indexer's excerpt is the
  default \<open>No excerpt available.\<close> and the runtime's is the empty string.
\<close>

theorem excerpt_of_first_paragraph:
  assumes "querySelector (parse html) (meta_name ''description'') = None"
  shows "(\<forall>el r. first_paragraph_offline (parse html) = Some el \<longrightarrow>
            extractMetadata parse now now' html file = Inr r \<longrightarrow>
            (200 < length (trim (textContent el)) \<longrightarrow>
               excerpt r = take 200 (trim (textContent el)) @ str ''...'' \<and> length (excerpt r) = 203) \<and>
            (0 < length (trim (textContent el)) \<and> length (trim (textContent el)) \<le> 200 \<longrightarrow>
               excerpt r = trim (textContent el)) \<and>
            (trim (textContent el) = [] \<longrightarrow> excerpt r = str ''No excerpt available.'')) \<and>
         (\<forall>el. first_paragraph_runtime (parse html) = Some el \<longrightarrow>
            (200 < length (trim (textContent el)) \<longrightarrow>
               extractExcerpt (parse html) = Some (take 200 (trim (textContent el)) @ str ''...'')) \<and>
            (length (trim (textContent el)) \<le> 200 \<longrightarrow>
               extractExcerpt (parse html) = Some (trim (textContent el))))"
proof (intro conjI allI impI)
  fix el r
  assume p: "first_paragraph_offline (parse html) = Some el"
    and r: "extractMetadata parse now now' html file = Inr r"
  note e = extractMetadata_fields(3) [OF r] meta_excerpt_paragraph [OF assms p]
  { assume "200 < length (trim (textContent el))"
    then show "excerpt r = take 200 (trim (textContent el)) @ str ''...''"
      and "length (excerpt r) = 203"
      by (simp_all add: e or_default_def length_dots dots_nonempty) }
  { assume "0 < length (trim (textContent el)) \<and> length (trim (textContent el)) \<le> 200"
    then show "excerpt r = trim (textContent el)"
      by (auto simp: e or_default_def) }
  { assume "trim (textContent el) = []"
    then show "excerpt r = str ''No excerpt available.''"
      by (simp add: e or_default_def) }
next
  fix el
  assume p: "first_paragraph_runtime (parse html) = Some el"
  note e = extractExcerpt_paragraph [OF assms p]
  { assume "200 < length (trim (textContent el))"
    then show "extractExcerpt (parse html) = Some (take 200 (trim (textContent el)) @ str ''...'')"
      by (simp add: e) }
  { assume "length (trim (textContent el)) \<le> 200"
    then show "extractExcerpt (parse html) = Some (trim (textContent el))"
      by (simp add: e) }
qed

lemma long_page_queries:
  "querySelector (page [] [para t]) (meta_name ''description'') = None"
  "first_paragraph_offline (page [] [para t]) = Some (para t)"
  "first_paragraph_runtime (page [] [para t]) = Some (para t)"
  "has_content (querySelector (page [] [para t]) date_metas)"
  "has_content (querySelector (page [] [para t]) (meta_name ''keywords''))"
  "textContent (para t) = t"
  by (simp_all add: first_paragraph_offline_def first_paragraph_runtime_def date_metas_def
      dom_defs string_defs)

lemma trim_xs: "trim (replicate n 120) = replicate n 120"
  by (simp add: trim_def isWhiteSpace_def isLineTerminator_def)

lemma image_page_queries:
  "querySelector (page [] [image_para]) (meta_name ''description'') = None"
  "first_paragraph_offline (page [] [image_para]) = Some image_para"
  "first_paragraph_runtime (page [] [image_para]) = Some image_para"
  "has_content (querySelector (page [] [image_para]) date_metas)"
  "has_content (querySelector (page [] [image_para]) (meta_name ''keywords''))"
  "trim (textContent image_para) = []"
  by (simp_all add: first_paragraph_offline_def first_paragraph_runtime_def date_metas_def
      image_para_def dom_defs string_defs)

theorem excerpt_of_first_paragraph_witness:
  "(\<exists>r. extractMetadata (parse_as (page [] [para (replicate 250 120)])) (morning 0) (morning 1) []
          (str ''a.html'') = Inr r \<and>
        excerpt r = replicate 200 120 @ str ''...'' \<and> length (excerpt r) = 203) \<and>
   extractExcerpt (page [] [para (replicate 250 120)]) = Some (replicate 200 120 @ str ''...'') \<and>
   (\<exists>r. extractMetadata (parse_as (page [] [para (replicate 200 120)])) (morning 0) (morning 1) []
          (str ''a.html'') = Inr r \<and>
        excerpt r = replicate 200 120) \<and>
   extractExcerpt (page [] [para (replicate 200 120)]) = Some (replicate 200 120) \<and>
   (\<exists>r. extractMetadata (parse_as (page [] [image_para])) (morning 0) (morning 1) []
          (str ''a.html'') = Inr r \<and>
        excerpt r = str ''No excerpt available.'') \<and>
   extractExcerpt (page [] [image_para]) = Some []"
proof -
  let ?long = "page [] [para (replicate 250 120)]" and ?short = "page [] [para (replicate 200 120)]"
  let ?image = "page [] [image_para]"
  have "\<exists>r. extractMetadata (parse_as ?long) (morning 0) (morning 1) [] (str ''a.html'') = Inr r"
    by (simp add: extractMetadata_Inr parse_as_def long_page_queries)
  then obtain r where r: "extractMetadata (parse_as ?long) (morning 0) (morning 1) [] (str ''a.html'') = Inr r" ..
  have "\<exists>r. extractMetadata (parse_as ?short) (morning 0) (morning 1) [] (str ''a.html'') = Inr r"
    by (simp add: extractMetadata_Inr parse_as_def long_page_queries)
  then obtain s where s: "extractMetadata (parse_as ?short) (morning 0) (morning 1) [] (str ''a.html'') = Inr s" ..
  have "\<exists>r. extractMetadata (parse_as ?image) (morning 0) (morning 1) [] (str ''a.html'') = Inr r"
    by (simp add: extractMetadata_Inr parse_as_def image_page_queries)
  then obtain u where u: "extractMetadata (parse_as ?image) (morning 0) (morning 1) [] (str ''a.html'') = Inr u" ..
  have d: "querySelector (parse_as ?long []) (meta_name ''description'') = None"
    "querySelector (parse_as ?short []) (meta_name ''description'') = None"
    "querySelector (parse_as ?image []) (meta_name ''description'') = None"
    by (simp_all add: parse_as_def long_page_queries image_page_queries)
  from excerpt_of_first_paragraph [of "parse_as ?long" "[]" "morning 0" "morning 1" "str ''a.html''", OF d(1)] r
  have 1: "excerpt r = replicate 200 120 @ str ''...'' \<and> length (excerpt r) = 203"
    "extractExcerpt ?long = Some (replicate 200 120 @ str ''...'')"
    by (simp_all add: parse_as_def long_page_queries trim_xs length_dots)
  from excerpt_of_first_paragraph [of "parse_as ?short" "[]" "morning 0" "morning 1" "str ''a.html''", OF d(2)] s
  have 2: "excerpt s = replicate 200 120" "extractExcerpt ?short = Some (replicate 200 120)"
    by (simp_all add: parse_as_def long_page_queries trim_xs)
  from excerpt_of_first_paragraph [of "parse_as ?image" "[]" "morning 0" "morning 1" "str ''a.html''", OF d(3)] u
  have 3: "excerpt u = str ''No excerpt available.''" "extractExcerpt ?image = Some []"
    by (simp_all add: parse_as_def image_page_queries)
  from r s u 1 2 3 show ?thesis by blast
qed

section \<open>The date\<close>

lemma split_on_nonempty: "split_on sep s \<noteq> []"
  by (induction s) (auto split: list.splits)

lemma hd_split_on: "hd (split_on sep s) = takeWhile (\<lambda>c. c \<noteq> sep) s"
  by (induction s) (auto split: list.splits simp: split_on_nonempty)

lemma date_part_prefix: "84 \<notin> set d \<Longrightarrow> date_part (d @ 84 # rest) = d"
  unfolding date_part_def hd_split_on by (induction d) simp_all

lemma match_date_calendar: "match_date s = Some d \<Longrightarrow> is_calendar_date d"
proof (induction s)
  case Nil
  then show ?case by simp
next
  case (Cons c cs)
  show ?case
  proof (cases "date_pattern_here (c # cs)")
    case True
    with Cons.prems have d: "d = take 10 (c # cs)" by simp
    from True show ?thesis
      unfolding d is_calendar_date_def date_pattern_here_def by simp
  next
    case False
    with Cons show ?thesis by simp
  qed
qed

lemma calendar_date_no_T:
  assumes "is_calendar_date d"
  shows "84 \<notin> set d"
proof
  assume "84 \<in> set d"
  then obtain i where i: "i < length d" "d ! i = 84" by (auto simp: in_set_conv_nth)
  from assms have l: "length d = 10" and p: "date_pattern_here d"
    by (simp_all add: is_calendar_date_def)
  from i l have "i = 0 \<or> i = 1 \<or> i = 2 \<or> i = 3 \<or> i = 4 \<or> i = 5 \<or> i = 6 \<or> i = 7 \<or> i = 8 \<or> i = 9"
    by arith
  with p i(2) show False
    by (auto simp: date_pattern_here_def isDigit_def)
qed

lemma T_literal: "str ''T'' = [84]"
  by (simp add: str_def)

text \<open>
  Claim C8, as stated: the date is always of the form \<open>YYYY-MM-DD\<close>. The content of the
  date \<open>meta\<close> element is taken as it is up to the first \<open>T\<close>; for the content
  \<open>September 24, 2025\<close> that is the whole content.
\<close>

theorem meta_date_not_calendar:
  "map_sum id date
     (extractMetadata (parse_as (page [meta ''date'' ''September 24, 2025''] [])) (morning 0)
        (morning 1) [] (str ''a.html'')) = Inr (str ''September 24, 2025'') \<and>
   \<not> is_calendar_date (str ''September 24, 2025'')"
  by (simp add: extract_defs dom_defs string_defs parse_as_def morning_def show_nat.simps
      is_calendar_date_def)

text \<open>
  Claim C8, amended. In the indexer the date is the content of the matched date \<open>meta\<close>
  element up to its first \<open>T\<close>, which removes the time of an ISO timestamp; without such an
  element it is the leftmost \<open>YYYY-MM-DD\<close> pattern of the slug, which has that form;
  without either it is the clock's ISO timestamp up to its \<open>T\<close>. The runtime uses the same
  slug pattern and the same current date when it finds no date \<open>meta\<close> element.
\<close>

theorem date_of_post:
  "(\<forall>el c r. querySelector (parse html) date_metas = Some el \<longrightarrow>
       getAttribute el (str ''content'') = Some c \<longrightarrow>
       extractMetadata parse now now' html file = Inr r \<longrightarrow>
       date r = date_part c) \<and>
   (\<forall>r. querySelector (parse html) date_metas = None \<longrightarrow>
       extractMetadata parse now now' html file = Inr r \<longrightarrow>
       (case match_date (basename file (str ''.html'')) of
          Some d \<Rightarrow> date r = d \<and> is_calendar_date d
        | None \<Rightarrow> date r = date_part now)) \<and>
   (runtime_date_meta (parse html) = None \<longrightarrow>
       extractDate now (parse html) slug' =
         (case match_date slug' of Some d \<Rightarrow> Some d | None \<Rightarrow> Some (date_part now))) \<and>
   (\<forall>d rest. is_calendar_date d \<longrightarrow> date_part (d @ str ''T'' @ rest) = d)"
proof (intro conjI allI impI)
  fix el c r
  assume q: "querySelector (parse html) date_metas = Some el"
    "getAttribute el (str ''content'') = Some c"
    and r: "extractMetadata parse now now' html file = Inr r"
  from q extractMetadata_fields(4) [OF r] show "date r = date_part c"
    by (simp add: meta_date_def date_metas_def Let_def)
next
  fix r
  assume q: "querySelector (parse html) date_metas = None"
    and r: "extractMetadata parse now now' html file = Inr r"
  from q extractMetadata_fields(4) [OF r]
  show "case match_date (basename file (str ''.html'')) of
          Some d \<Rightarrow> date r = d \<and> is_calendar_date d
        | None \<Rightarrow> date r = date_part now"
    by (auto simp: meta_date_def date_metas_def Let_def match_date_calendar split: option.splits)
next
  assume "runtime_date_meta (parse html) = None"
  then show "extractDate now (parse html) slug' =
         (case match_date slug' of Some d \<Rightarrow> Some d | None \<Rightarrow> Some (date_part now))"
    by (simp add: extractDate_def runtime_date_meta_def split: option.splits)
next
  fix d rest
  assume "is_calendar_date d"
  then show "date_part (d @ str ''T'' @ rest) = d"
    by (simp add: T_literal date_part_prefix calendar_date_no_T)
qed

lemma dated_page_queries:
  "querySelector (page [meta ''date'' c] []) date_metas = Some (meta ''date'' c)"
  "getAttribute (meta ''date'' c) (str ''content'') = Some (str c)"
  "has_content (querySelector (page [meta ''date'' c] []) (meta_name ''keywords''))"
  "querySelector (page [] []) date_metas = None"
  "runtime_date_meta (page [] []) = None"
  "has_content (querySelector (page [] []) (meta_name ''keywords''))"
  by (simp_all add: date_metas_def runtime_date_meta_def dom_defs string_defs)

theorem date_of_post_witness:
  "(\<exists>r. extractMetadata (parse_as (page [meta ''date'' ''2025-09-23T10:30:00Z''] [])) (morning 0)
          (morning 1) [] (str ''a.html'') = Inr r \<and> date r = str ''2025-09-23'') \<and>
   (\<exists>r. extractMetadata (parse_as (page [] [])) (morning 0) (morning 1) []
          (str ''notes-2025-09-20.html'') = Inr r \<and> date r = str ''2025-09-20'') \<and>
   (\<exists>r. extractMetadata (parse_as (page [] [])) (morning 0) (morning 1) []
          (str ''a.html'') = Inr r \<and> date r = str ''2025-09-24'') \<and>
   extractDate (morning 0) (page [] []) (str ''notes-2025-09-20'') = Some (str ''2025-09-20'') \<and>
   date_part (str ''2025-09-24'' @ str ''T'' @ str ''08:00:00.000Z'') = str ''2025-09-24''"
proof -
  let ?dated = "parse_as (page [meta ''date'' ''2025-09-23T10:30:00Z''] [])"
  let ?plain = "parse_as (page [] [])"
  have m: "match_date (basename (str ''notes-2025-09-20.html'') (str ''.html'')) = Some (str ''2025-09-20'')"
    "match_date (str ''notes-2025-09-20'') = Some (str ''2025-09-20'')"
    "match_date (basename (str ''a.html'') (str ''.html'')) = None"
    by (simp_all add: string_defs date_pattern_here_def)
  have c: "is_calendar_date (str ''2025-09-24'')"
    by (simp add: is_calendar_date_def date_pattern_here_def str_def isDigit_def)
  have n: "date_part (morning 0) = str ''2025-09-24''"
    by (simp add: morning_def date_part_def str_def)
  have t: "date_part (str ''2025-09-23T10:30:00Z'') = str ''2025-09-23''"
    by (simp add: date_part_def str_def)
  obtain r1 where r1: "extractMetadata ?dated (morning 0) (morning 1) [] (str ''a.html'') = Inr r1"
    using extractMetadata_Inr [of ?dated "morning 0" "morning 1" "[]" "str ''a.html''"]
    by (auto simp: parse_as_def dated_page_queries)
  obtain r2 where r2: "extractMetadata ?plain (morning 0) (morning 1) [] (str ''notes-2025-09-20.html'') = Inr r2"
    using extractMetadata_Inr [of ?plain "morning 0" "morning 1" "[]" "str ''notes-2025-09-20.html''"]
    by (auto simp: parse_as_def dated_page_queries)
  obtain r3 where r3: "extractMetadata ?plain (morning 0) (morning 1) [] (str ''a.html'') = Inr r3"
    using extractMetadata_Inr [of ?plain "morning 0" "morning 1" "[]" "str ''a.html''"]
    by (auto simp: parse_as_def dated_page_queries)
  from date_of_post [of ?dated "[]" "morning 0" "morning 1" "str ''a.html''" "str ''a''"] r1
  have 1: "date r1 = str ''2025-09-23''"
    by (simp add: parse_as_def dated_page_queries t)
  from date_of_post [of ?plain "[]" "morning 0" "morning 1" "str ''notes-2025-09-20.html''" "str ''notes-2025-09-20''"] r2
  have 2: "date r2 = str ''2025-09-20''"
    "extractDate (morning 0) (page [] []) (str ''notes-2025-09-20'') = Some (str ''2025-09-20'')"
    by (simp_all add: parse_as_def dated_page_queries m)
  from date_of_post [of ?plain "[]" "morning 0" "morning 1" "str ''a.html''" "str ''a''"] r3 c
  have 3: "date r3 = str ''2025-09-24''"
    "date_part (str ''2025-09-24'' @ str ''T'' @ str ''08:00:00.000Z'') = str ''2025-09-24''"
    by (simp_all add: parse_as_def dated_page_queries m n)
  from r1 r2 r3 1 2 3 show ?thesis by blast
qed

section \<open>The runtime loader never reaches its sample posts\<close>

lemma fetchPostsFromIndex_never_throws: "\<exists>ps. fetchPostsFromIndex env = Inr ps"
  by (auto simp: fetchPostsFromIndex_def split: option.splits sum.splits)

lemma loadAllPosts_without_index:
  assumes "fetchPostsFromIndex env = Inr []"
  shows "loadAllPosts env = sort_by (newest_first (post_time env)) (discovered env)"
  using assms by (simp add: loadAllPosts_def discoverPosts_def)

text \<open>
  Claim C2. When the request for \<open>posts.json\<close> fails and no known document can be loaded,
  the claim expects \<open>allPosts\<close> to be the three sample records. On a site that answers
  every request with 404, \<open>fetchPostsFromIndex\<close> returns the empty list,
  \<open>loadAndParsePost\<close> catches its own error and returns \<open>null\<close>, nothing reaches
  the \<open>catch\<close> of \<open>loadAllPosts\<close>, and \<open>allPosts\<close> is the empty list that
  \<open>discoverPosts\<close> returned.
\<close>

theorem loadAllPosts_missing_site:
  "loadAllPosts missing_site = [] \<and> loadAllPosts missing_site \<noteq> getSamplePosts"
  by (simp add: loadAllPosts_def fetchPostsFromIndex_def discoverPosts_def discovered_def loadAndParsePost_def
      missing_site_def knownPosts_def sort_by_def getSamplePosts_def)

section \<open>Tags from the keywords\<close>

lemma meta_tags_of_keywords:
  assumes "querySelector doc (meta_name ''keywords'') = Some el"
    and "getAttribute el (str ''content'') = Some c"
  shows "meta_tags doc = Inr (filter (\<lambda>tag. tag \<noteq> []) (map trim (split_on 44 c)))"
    and "extractTags doc = Inr (map trim (split_on 44 c))"
  using assms by (simp_all add: meta_tags_def extractTags_def)

lemma keywords_example:
  "meta_tags (page [meta ''keywords'' ''A, B ,C''] []) = Inr [str ''A'', str ''B'', str ''C'']"
  "extractTags (page [meta ''keywords'' ''A, B ,C''] []) = Inr [str ''A'', str ''B'', str ''C'']"
  by (simp_all add: extractTags_def meta_tags_def dom_defs string_defs)

text \<open>
  Claim C7. The keywords are split on commas and trimmed, and empty segments are to be
  dropped. For \<open><meta name="keywords" content="A,,B">\<close> the runtime \<open>extractTags\<close>
  keeps the empty segment, while the indexer's \<open>extractMetadata\<close> filters it out.
\<close>

theorem extractTags_keeps_empty_segments:
  "extractTags (page [meta ''keywords'' ''A,,B''] []) = Inr [str ''A'', [], str ''B''] \<and>
   meta_tags (page [meta ''keywords'' ''A,,B''] []) = Inr [str ''A'', str ''B'']"
  by (simp add: extractTags_def meta_tags_def dom_defs string_defs)

lemma meta_tags_nonempty_without_keywords:
  assumes "querySelector doc (meta_name ''keywords'') = None" and "meta_tags doc = Inr ts"
  shows "ts \<noteq> []"
  using assms by (auto simp: meta_tags_def Let_def split: if_splits)

text \<open>
  Claim C9. Every record is to have at least one tag. For
  \<open><meta name="keywords" content="">\<close> the indexer filters the only segment away and
  the record's tag list is empty; the default \<open>["Blog"]\<close> is not restored.
\<close>

theorem blank_keywords_give_no_tags:
  "map_sum id tags
     (extractMetadata (parse_as (page [meta ''keywords'' ''''] [])) (morning 0) (morning 1) []
        (str ''a.html'')) = Inr []"
  by (simp add: extract_defs dom_defs string_defs parse_as_def morning_def show_nat.simps)

end
